theory Spec2Isabelle
  imports Complex_Main
begin

section \<open>Sawyer manipulation tasks: reward shaping and state randomisation\<close>

text \<open>
  The four task classes (button press wall, plate slide back side, reach, window open)
  are embedded as functions over an explicit environment record. Python floats and
  numpy float64 values are read as real numbers: comparisons, branches and the order of
  the operations are those of the source, rounding is not modelled. A one-dimensional
  numpy array is a list of reals. Every exception of the source is a value of the type
  \<open>error\<close>, and a function that can raise returns \<open>error + 'a\<close>.
\<close>

subsection \<open>Errors and numpy arrays\<close>

datatype error =
    TaskNotSet \<comment> \<open>the guard of \<open>evaluate_state\<close>: the task has not been set\<close>
  | InvalidTolerance \<comment> \<open>precondition violation of the tolerance shaping function\<close>
  | IndexError \<comment> \<open>an index outside the array\<close>
  | ShapeMismatch \<comment> \<open>numpy: operands could not be broadcast together\<close>

type_synonym ndarray = "real list"

definition bind_err :: "error + 'a \<Rightarrow> ('a \<Rightarrow> error + 'b) \<Rightarrow> error + 'b" where
  "bind_err m f = (case m of Inl e \<Rightarrow> Inl e | Inr v \<Rightarrow> f v)"

text \<open>
  \<open>xs[i]\<close> with Python's negative indices counting from the end; outside the array the
  source raises.
\<close>

definition item :: "ndarray \<Rightarrow> int \<Rightarrow> error + real" where
  "item xs i =
     (if 0 \<le> i \<and> i < int (length xs) then Inr (xs ! nat i)
      else if i < 0 \<and> - int (length xs) \<le> i then Inr (xs ! nat (int (length xs) + i))
      else Inl IndexError)"

text \<open>\<open>xs[i:j]\<close> for \<open>0 \<le> i \<le> j\<close>: a slice never raises, it is cut at the end of the array.\<close>

definition slice :: "ndarray \<Rightarrow> nat \<Rightarrow> nat \<Rightarrow> ndarray" where
  "slice xs i j = take (j - i) (drop i xs)"

text \<open>\<open>xs[-n:]\<close>: the last \<open>n\<close> elements, the whole array when it is shorter.\<close>

definition last_n :: "ndarray \<Rightarrow> nat \<Rightarrow> ndarray" where
  "last_n xs n = drop (length xs - n) xs"

text \<open>
  An elementwise binary operation on two one-dimensional arrays, with numpy's
  broadcasting: the shapes \<open>(m,)\<close> and \<open>(n,)\<close> are compatible when \<open>m = n\<close> or one of
  them is 1.
\<close>

definition broadcast :: "(real \<Rightarrow> real \<Rightarrow> real) \<Rightarrow> ndarray \<Rightarrow> ndarray \<Rightarrow> error + ndarray" where
  "broadcast f xs ys =
     (if length xs = length ys then Inr (map2 f xs ys)
      else if length xs = 1 then Inr (map (f (hd xs)) ys)
      else if length ys = 1 then Inr (map (\<lambda>x. f x (hd ys)) xs)
      else Inl ShapeMismatch)"

definition vsub :: "ndarray \<Rightarrow> ndarray \<Rightarrow> error + ndarray" where
  "vsub xs ys = broadcast (\<lambda>x y. x - y) xs ys"

definition vadd :: "ndarray \<Rightarrow> ndarray \<Rightarrow> error + ndarray" where
  "vadd xs ys = broadcast (\<lambda>x y. x + y) xs ys"

text \<open>\<open>np.linalg.norm\<close> of a one-dimensional array: the square root of the sum of squares.\<close>

definition linalg_norm :: "ndarray \<Rightarrow> real" where
  "linalg_norm xs = sqrt (sum_list (map (\<lambda>x. x * x) xs))"

text \<open>
  \<open>np.linalg.norm\<close> of a scalar: the scalar is ravelled into an array of one element.
\<close>

definition linalg_norm_scalar :: "real \<Rightarrow> real" where
  "linalg_norm_scalar x = linalg_norm [x]"

text \<open>\<open>float(b)\<close> of a Python bool.\<close>

definition float_of_bool :: "bool \<Rightarrow> real" where
  "float_of_bool b = (if b then 1 else 0)"

subsection \<open>Reward utilities\<close>

text \<open>
  Modelled from the spec: \<open>reward_utils.tolerance\<close> is not among the sources. Spec 4.1:
  inside \<open>[lo, hi]\<close> the score is 1.0; outside, the normalised overshoot
  \<open>d = (value - hi) / margin\<close> (or \<open>(lo - value) / margin\<close> below \<open>lo\<close>) goes through the
  selected decay curve; \<open>margin \<le> 0\<close> fails fast, and so do bounds with \<open>lo > hi\<close>
  (spec 7). The spec gives no formula for the decay curves, so the table of curves is the
  parameter \<open>sigmoids\<close>, indexed by the name of the family.
\<close>

definition tolerance ::
  "(string \<Rightarrow> real \<Rightarrow> real) \<Rightarrow> real \<Rightarrow> real \<times> real \<Rightarrow> real \<Rightarrow> string \<Rightarrow> error + real" where
  "tolerance sigmoids x bounds margin sigmoid =
     (let lower = fst bounds; upper = snd bounds in
      if margin \<le> 0 \<or> upper < lower then Inl InvalidTolerance
      else if lower \<le> x \<and> x \<le> upper then Inr 1
      else Inr (sigmoids sigmoid
             (if x < lower then (lower - x) / margin else (x - upper) / margin)))"

text \<open>
  Modelled from the spec: \<open>reward_utils.hamacher_product\<close> is not among the sources.
  Spec 4.2: for two scores \<open>a, b\<close> in \<open>[0, 1]\<close> it is \<open>(a * b) / (a + b - a * b)\<close>, and 0
  when both inputs are 0. The spec says nothing about inputs outside \<open>[0, 1]\<close>.
\<close>

definition hamacher_product :: "real \<Rightarrow> real \<Rightarrow> real" where
  "hamacher_product a b = (if a = 0 \<and> b = 0 then 0 else (a * b) / (a + b - a * b))"

subsection \<open>The environment\<close>

text \<open>
  The fields of \<open>SawyerXYZEnv\<close> that the four tasks read. \<open>tcp_center\<close>, \<open>init_tcp\<close>,
  \<open>site_pos\<close> (\<open>_get_site_pos\<close>) and \<open>body_com\<close> (\<open>get_body_com\<close>) are answers of the
  simulator; \<open>target_pos\<close> is the field \<open>_target_pos\<close>.

  Modelled from the spec: the base class and its decorator \<open>_assert_task_is_set\<close> are
  not among the sources. Spec 4.4 and 9: an explicit state flag, checked at the top of
  the evaluation, that is unset until the task has been set by the first reset; the
  field \<open>task_is_set\<close> is that flag.
\<close>

record sawyer_xyz_env =
  task_is_set :: bool
  tcp_center :: ndarray
  init_tcp :: ndarray
  target_pos :: ndarray
  obj_init_pos :: ndarray
  hand_init_pos :: ndarray
  site_pos :: "string \<Rightarrow> ndarray"
  body_com :: "string \<Rightarrow> ndarray"

text \<open>The info dict, in the order the source writes its keys.\<close>

type_synonym info = "(string \<times> real) list"

text \<open>
  Modelled from the spec: the decorator \<open>_assert_task_is_set\<close>. The wrapped method runs
  only when the flag is set; otherwise the call fails with the precondition violation.
\<close>

definition assert_task_is_set ::
  "('e sawyer_xyz_env_scheme \<Rightarrow> error + 'a) \<Rightarrow> 'e sawyer_xyz_env_scheme \<Rightarrow> error + 'a" where
  "assert_task_is_set func env = (if \<not> task_is_set env then Inl TaskNotSet else func env)"

subsection \<open>Plate slide (back, side)\<close>

type_synonym reward_tuple = "real \<times> real \<times> real \<times> real \<times> real \<times> real"

definition compute_reward_plate ::
  "(string \<Rightarrow> real \<Rightarrow> real) \<Rightarrow> 'e sawyer_xyz_env_scheme \<Rightarrow> ndarray \<Rightarrow> ndarray
     \<Rightarrow> error + reward_tuple" where
  "compute_reward_plate sigmoids env actions obs =
     (let TARGET_RADIUS = 0.05;
          tcp = tcp_center env;
          obj = slice obs 4 7 in
      bind_err (item obs 3) (\<lambda>tcp_opened.
      let target = target_pos env in
      bind_err (vsub obj target) (\<lambda>obj_minus_target.
      let obj_to_target = linalg_norm obj_minus_target in
      bind_err (vsub (obj_init_pos env) target) (\<lambda>init_minus_target.
      let in_place_margin = linalg_norm init_minus_target in
      bind_err (tolerance sigmoids obj_to_target (0, TARGET_RADIUS)
                  (in_place_margin - TARGET_RADIUS) ''long_tail'') (\<lambda>in_place.
      bind_err (vsub tcp obj) (\<lambda>tcp_minus_obj.
      let tcp_to_obj = linalg_norm tcp_minus_obj in
      bind_err (vsub (init_tcp env) (obj_init_pos env)) (\<lambda>init_tcp_minus_obj.
      let obj_grasped_margin = linalg_norm init_tcp_minus_obj in
      bind_err (tolerance sigmoids tcp_to_obj (0, TARGET_RADIUS)
                  (obj_grasped_margin - TARGET_RADIUS) ''long_tail'') (\<lambda>object_grasped.
      let reward = 1.5 * object_grasped in
      bind_err (item tcp 2) (\<lambda>tcp2.
      let reward = (if tcp2 \<le> 0.03 \<and> tcp_to_obj < 0.07 then 2 + 7 * in_place else reward);
          reward = (if obj_to_target < TARGET_RADIUS then 10.0 else reward) in
      Inr (reward, tcp_to_obj, tcp_opened, obj_to_target, object_grasped, in_place))))))))))"

text \<open>\<open>evaluate_state\<close>, wrapped by the guard as in the source.\<close>

definition evaluate_state_plate ::
  "(string \<Rightarrow> real \<Rightarrow> real) \<Rightarrow> 'e sawyer_xyz_env_scheme \<Rightarrow> ndarray \<Rightarrow> ndarray
     \<Rightarrow> error + real \<times> info" where
  "evaluate_state_plate sigmoids env obs action =
     assert_task_is_set (\<lambda>self.
       bind_err (compute_reward_plate sigmoids self action obs)
         (\<lambda>(reward, tcp_to_obj, tcp_opened, obj_to_target, object_grasped, in_place).
            let success = float_of_bool (obj_to_target \<le> 0.07);
                near_object = float_of_bool (tcp_to_obj \<le> 0.03);
                info = [(''success'', success),
                        (''near_object'', near_object),
                        (''grasp_success'', 0.0),
                        (''grasp_reward'', object_grasped),
                        (''in_place_reward'', in_place),
                        (''obj_to_target'', obj_to_target),
                        (''unscaled_reward'', reward)] in
            Inr (reward, info))) env"

subsection \<open>Reach\<close>

definition compute_reward_reach ::
  "(string \<Rightarrow> real \<Rightarrow> real) \<Rightarrow> 'e sawyer_xyz_env_scheme \<Rightarrow> ndarray \<Rightarrow> ndarray
     \<Rightarrow> error + real \<times> real \<times> real" where
  "compute_reward_reach sigmoids env actions obs =
     (let TARGET_RADIUS = 0.05;
          tcp = tcp_center env;
          target = target_pos env in
      bind_err (vsub tcp target) (\<lambda>tcp_minus_target.
      let tcp_to_target = linalg_norm tcp_minus_target in
      bind_err (vsub (hand_init_pos env) target) (\<lambda>hand_minus_target.
      let in_place_margin = linalg_norm hand_minus_target in
      bind_err (tolerance sigmoids tcp_to_target (0, TARGET_RADIUS)
                  in_place_margin ''long_tail'') (\<lambda>in_place.
      Inr (10 * in_place, tcp_to_target, in_place)))))"

definition evaluate_state_reach ::
  "(string \<Rightarrow> real \<Rightarrow> real) \<Rightarrow> 'e sawyer_xyz_env_scheme \<Rightarrow> ndarray \<Rightarrow> ndarray
     \<Rightarrow> error + real \<times> info" where
  "evaluate_state_reach sigmoids env obs action =
     assert_task_is_set (\<lambda>self.
       bind_err (compute_reward_reach sigmoids self action obs)
         (\<lambda>(reward, reach_dist, in_place).
            let success = float_of_bool (reach_dist \<le> 0.05);
                info = [(''success'', success),
                        (''near_object'', reach_dist),
                        (''grasp_success'', 1.0),
                        (''grasp_reward'', reach_dist),
                        (''in_place_reward'', in_place),
                        (''obj_to_target'', reach_dist),
                        (''unscaled_reward'', reward)] in
            Inr (reward, info))) env"

text \<open>
  \<open>fix_extreme_obj_pos\<close>: \<open>get_body_com("obj")\<close> is read three times with no write to
  the simulator in between, so the three reads give the same array.
\<close>

definition fix_extreme_obj_pos ::
  "'e sawyer_xyz_env_scheme \<Rightarrow> ndarray \<Rightarrow> error + ndarray" where
  "fix_extreme_obj_pos env orig_init_pos =
     bind_err (vsub (slice (body_com env ''obj'') 0 2) (slice (body_com env ''obj'') 0 2))
       (\<lambda>diff.
     bind_err (vadd (slice orig_init_pos 0 2) diff) (\<lambda>adjusted_pos.
     bind_err (item adjusted_pos 0) (\<lambda>a0.
     bind_err (item adjusted_pos 1) (\<lambda>a1.
     bind_err (item (body_com env ''obj'') (- 1)) (\<lambda>height.
     Inr [a0, a1, height])))))"

text \<open>
  The rejection loop of \<open>reset_model\<close>. \<open>_get_state_rand_vec\<close> belongs to the base class
  and draws from the generator of the environment: its successive answers are the
  sequence \<open>rand_vec\<close>, and \<open>k\<close> counts the draws made so far. The loop has no bound, so
  the function is partial: \<open>None\<close> is a loop that never ends.
\<close>

partial_function (option) resample ::
  "(nat \<Rightarrow> ndarray) \<Rightarrow> nat \<Rightarrow> ndarray \<Rightarrow> ndarray \<Rightarrow> (error + ndarray \<times> ndarray \<times> nat) option"
  where
  "resample rand_vec k goal_pos target =
     (case vsub (slice goal_pos 0 2) (slice target 0 2) of
        Inl e \<Rightarrow> Some (Inl e)
      | Inr d \<Rightarrow>
          if linalg_norm d < 0.15
          then resample rand_vec (Suc k) (rand_vec k) (drop 3 (rand_vec k))
          else Some (Inr (goal_pos, target, k)))"

text \<open>
  \<open>reset_model\<close>, on the fields of the episode state that the source assigns. The reset
  of the hand, the write of the object position to the simulator and the observation
  returned belong to the base class and the simulator and are left out.
\<close>

definition reset_model_reach ::
  "(nat \<Rightarrow> ndarray) \<Rightarrow> 'e sawyer_xyz_env_scheme \<Rightarrow> (error + 'e sawyer_xyz_env_scheme) option" where
  "reset_model_reach rand_vec env =
     (case fix_extreme_obj_pos env [0.0, 0.6, 0.02] of
        Inl e \<Rightarrow> Some (Inl e)
      | Inr fixed \<Rightarrow>
          let env1 = env\<lparr>target_pos := [- 0.1, 0.8, 0.2], obj_init_pos := fixed\<rparr>;
              goal_pos = rand_vec 0 in
          (case resample rand_vec 1 goal_pos (drop 3 goal_pos) of
             None \<Rightarrow> None
           | Some (Inl e) \<Rightarrow> Some (Inl e)
           | Some (Inr (goal_pos, target, k)) \<Rightarrow>
               Some (Inr (env1\<lparr>target_pos := last_n goal_pos 3,
                               obj_init_pos := slice goal_pos 0 3\<rparr>))))"

subsection \<open>Button press (wall)\<close>

record button_press_wall_env = sawyer_xyz_env +
  obj_to_target_init :: real

definition compute_reward_button ::
  "(string \<Rightarrow> real \<Rightarrow> real) \<Rightarrow> 'e button_press_wall_env_scheme \<Rightarrow> ndarray \<Rightarrow> ndarray
     \<Rightarrow> error + reward_tuple" where
  "compute_reward_button sigmoids env action obs =
     (let obj = slice obs 4 7;
          tcp = tcp_center env in
      bind_err (vsub obj tcp) (\<lambda>obj_minus_tcp.
      let tcp_to_obj = linalg_norm obj_minus_tcp in
      bind_err (vsub obj (init_tcp env)) (\<lambda>obj_minus_init.
      let tcp_to_obj_init = linalg_norm obj_minus_init in
      bind_err (item (target_pos env) 1) (\<lambda>target1.
      bind_err (item obj 1) (\<lambda>obj1.
      let obj_to_target = \<bar>target1 - obj1\<bar> in
      bind_err (tolerance sigmoids tcp_to_obj (0, 0.01) tcp_to_obj_init ''long_tail'')
        (\<lambda>near_button.
      bind_err (tolerance sigmoids obj_to_target (0, 0.005) (obj_to_target_init env)
                  ''long_tail'') (\<lambda>button_pressed.
      bind_err
        (if tcp_to_obj > 0.07
         then bind_err (item obs 3) (\<lambda>obs3.
                let tcp_status = (1 - obs3) / 2.0 in
                Inr (2 * hamacher_product tcp_status near_button))
         else bind_err (item obs 3) (\<lambda>obs3.
                let reward = 2;
                    reward = reward + 2 * (1 + obs3);
                    reward = reward + 4 * button_pressed ^ 2 in
                Inr reward)) (\<lambda>reward.
      bind_err (item obs 3) (\<lambda>obs3.
      Inr (reward, tcp_to_obj, obs3, obj_to_target, near_button, button_pressed))))))))))"

definition evaluate_state_button ::
  "(string \<Rightarrow> real \<Rightarrow> real) \<Rightarrow> 'e button_press_wall_env_scheme \<Rightarrow> ndarray \<Rightarrow> ndarray
     \<Rightarrow> error + real \<times> info" where
  "evaluate_state_button sigmoids env obs action =
     assert_task_is_set (\<lambda>self.
       bind_err (compute_reward_button sigmoids self action obs)
         (\<lambda>(reward, tcp_to_obj, tcp_open, obj_to_target, near_button, button_pressed).
            let info = [(''success'', float_of_bool (obj_to_target \<le> 0.03)),
                        (''near_object'', float_of_bool (tcp_to_obj \<le> 0.05)),
                        (''grasp_success'', float_of_bool (tcp_open > 0)),
                        (''grasp_reward'', near_button),
                        (''in_place_reward'', button_pressed),
                        (''obj_to_target'', obj_to_target),
                        (''unscaled_reward'', reward)] in
            Inr (reward, info))) env"

subsection \<open>Window open\<close>

record window_open_env = sawyer_xyz_env +
  window_handle_pos_init :: ndarray

definition TARGET_RADIUS_window :: real where
  "TARGET_RADIUS_window = 0.05"

definition get_pos_objects_window :: "'e window_open_env_scheme \<Rightarrow> ndarray" where
  "get_pos_objects_window env = site_pos env ''handleOpenStart''"

definition compute_reward_window ::
  "(string \<Rightarrow> real \<Rightarrow> real) \<Rightarrow> 'e window_open_env_scheme \<Rightarrow> ndarray \<Rightarrow> ndarray
     \<Rightarrow> error + reward_tuple" where
  "compute_reward_window sigmoids env actions obs =
     (let obj = get_pos_objects_window env;
          tcp = tcp_center env;
          target = target_pos env in
      bind_err (item obj 0) (\<lambda>obj0.
      bind_err (item target 0) (\<lambda>target0.
      let target_to_obj = linalg_norm_scalar (obj0 - target0) in
      bind_err (item (obj_init_pos env) 0) (\<lambda>init0.
      let target_to_obj_init = linalg_norm_scalar (init0 - target0) in
      bind_err (tolerance sigmoids target_to_obj (0, TARGET_RADIUS_window)
                  \<bar>target_to_obj_init - TARGET_RADIUS_window\<bar> ''long_tail'') (\<lambda>in_place.
      let handle_radius = 0.02 in
      bind_err (vsub obj tcp) (\<lambda>obj_minus_tcp.
      let tcp_to_obj = linalg_norm obj_minus_tcp in
      bind_err (vsub (window_handle_pos_init env) (init_tcp env)) (\<lambda>handle_minus_init.
      let tcp_to_obj_init = linalg_norm handle_minus_init in
      bind_err (tolerance sigmoids tcp_to_obj (0, handle_radius)
                  \<bar>tcp_to_obj_init - handle_radius\<bar> ''long_tail'') (\<lambda>reach.
      let tcp_opened = 0;
          object_grasped = reach;
          reward = 10 * hamacher_product reach in_place in
      Inr (reward, tcp_to_obj, tcp_opened, target_to_obj, object_grasped, in_place)))))))))"

definition evaluate_state_window ::
  "(string \<Rightarrow> real \<Rightarrow> real) \<Rightarrow> 'e window_open_env_scheme \<Rightarrow> ndarray \<Rightarrow> ndarray
     \<Rightarrow> error + real \<times> info" where
  "evaluate_state_window sigmoids env obs action =
     assert_task_is_set (\<lambda>self.
       bind_err (compute_reward_window sigmoids self action obs)
         (\<lambda>(reward, tcp_to_obj, tcp_opened, target_to_obj, object_grasped, in_place).
            let info = [(''success'', float_of_bool (target_to_obj \<le> TARGET_RADIUS_window)),
                        (''near_object'', float_of_bool (tcp_to_obj \<le> 0.05)),
                        (''grasp_success'', 1.0),
                        (''grasp_reward'', object_grasped),
                        (''in_place_reward'', in_place),
                        (''obj_to_target'', target_to_obj),
                        (''unscaled_reward'', reward)] in
            Inr (reward, info))) env"

subsection \<open>The evaluation as a method of the object\<close>

text \<open>
  The methods \<open>evaluate_state\<close> and \<open>compute_reward\<close> of the four tasks once more, now
  as transitions of the object: a method takes \<open>self\<close> and returns its result together
  with the object after the call, so that an assignment to a field would show in the
  second component. Every \<open>self.x\<close> of the source is a read, in the order of the source;
  every other statement computes on local values. No statement of these methods assigns
  a field of \<open>self\<close> or writes into an array it reads: \<open>del action\<close> removes a local
  name, \<open>self._target_pos.copy()\<close> makes a new array, and \<open>reward += ...\<close> rebinds a
  local number.

  Modelled from the spec: the base class is not among the sources. Its property
  \<open>tcp_center\<close> and its method \<open>_get_site_pos\<close> are queries of the simulator, whose poses
  are read-only for the task within a step (spec 3); \<open>tolerance\<close> and
  \<open>hamacher_product\<close> have no side effects (spec 4.1).
\<close>

type_synonym ('s, 'a) call = "'s \<Rightarrow> (error + 'a) \<times> 's"

text \<open>\<open>return v\<close>, and \<open>raise e\<close>: the call ends with the object as it is.\<close>

definition return_m :: "'a \<Rightarrow> ('s, 'a) call" where
  "return_m v = (\<lambda>self. (Inr v, self))"

definition raise_m :: "error \<Rightarrow> ('s, 'a) call" where
  "raise_m e = (\<lambda>self. (Inl e, self))"

text \<open>
  \<open>self.x\<close>, a read of a field, of a property or of a query of the simulator. The
  counterpart \<open>self.x = v\<close> would return \<open>self\<close> updated; the methods below hold none.
\<close>

definition getattr_m :: "('s \<Rightarrow> 'a) \<Rightarrow> ('s, 'a) call" where
  "getattr_m field = (\<lambda>self. (Inr (field self), self))"

text \<open>A computation on local values, which may raise and does not touch the object.\<close>

definition local_m :: "error + 'a \<Rightarrow> ('s, 'a) call" where
  "local_m r = (\<lambda>self. (r, self))"

text \<open>
  Two statements in sequence: the second runs on the object left by the first, and an
  exception of the first ends the call.
\<close>

definition bind_m :: "('s, 'a) call \<Rightarrow> ('a \<Rightarrow> ('s, 'b) call) \<Rightarrow> ('s, 'b) call" where
  "bind_m m k =
     (\<lambda>self. case m self of (Inl e, self') \<Rightarrow> (Inl e, self') | (Inr v, self') \<Rightarrow> k v self')"

text \<open>
  Modelled from the spec: the decorator \<open>_assert_task_is_set\<close> (spec 4.4 and 9), which
  reads the flag and then either fails or runs the wrapped method.
\<close>

definition assert_task_is_set_st ::
  "('e sawyer_xyz_env_scheme, 'a) call \<Rightarrow> ('e sawyer_xyz_env_scheme, 'a) call" where
  "assert_task_is_set_st func =
     bind_m (getattr_m task_is_set) (\<lambda>is_set. if \<not> is_set then raise_m TaskNotSet else func)"

text \<open>Plate slide (back, side).\<close>

definition compute_reward_plate_st ::
  "(string \<Rightarrow> real \<Rightarrow> real) \<Rightarrow> ndarray \<Rightarrow> ndarray
     \<Rightarrow> ('e sawyer_xyz_env_scheme, reward_tuple) call" where
  "compute_reward_plate_st sigmoids actions obs =
     (let TARGET_RADIUS = 0.05 in
      bind_m (getattr_m tcp_center) (\<lambda>tcp.
      let obj = slice obs 4 7 in
      bind_m (local_m (item obs 3)) (\<lambda>tcp_opened.
      bind_m (getattr_m target_pos) (\<lambda>target.
      bind_m (local_m (vsub obj target)) (\<lambda>obj_minus_target.
      let obj_to_target = linalg_norm obj_minus_target in
      bind_m (getattr_m obj_init_pos) (\<lambda>obj_init.
      bind_m (local_m (vsub obj_init target)) (\<lambda>init_minus_target.
      let in_place_margin = linalg_norm init_minus_target in
      bind_m (local_m (tolerance sigmoids obj_to_target (0, TARGET_RADIUS)
                         (in_place_margin - TARGET_RADIUS) ''long_tail'')) (\<lambda>in_place.
      bind_m (local_m (vsub tcp obj)) (\<lambda>tcp_minus_obj.
      let tcp_to_obj = linalg_norm tcp_minus_obj in
      bind_m (getattr_m init_tcp) (\<lambda>init_tcp_read.
      bind_m (getattr_m obj_init_pos) (\<lambda>obj_init.
      bind_m (local_m (vsub init_tcp_read obj_init)) (\<lambda>init_tcp_minus_obj.
      let obj_grasped_margin = linalg_norm init_tcp_minus_obj in
      bind_m (local_m (tolerance sigmoids tcp_to_obj (0, TARGET_RADIUS)
                         (obj_grasped_margin - TARGET_RADIUS) ''long_tail'')) (\<lambda>object_grasped.
      let reward = 1.5 * object_grasped in
      bind_m (local_m (item tcp 2)) (\<lambda>tcp2.
      let reward = (if tcp2 \<le> 0.03 \<and> tcp_to_obj < 0.07 then 2 + 7 * in_place else reward);
          reward = (if obj_to_target < TARGET_RADIUS then 10.0 else reward) in
      return_m
        (reward, tcp_to_obj, tcp_opened, obj_to_target, object_grasped, in_place)))))))))))))))"

definition evaluate_state_plate_st ::
  "(string \<Rightarrow> real \<Rightarrow> real) \<Rightarrow> ndarray \<Rightarrow> ndarray
     \<Rightarrow> ('e sawyer_xyz_env_scheme, real \<times> info) call" where
  "evaluate_state_plate_st sigmoids obs action =
     assert_task_is_set_st
       (bind_m (compute_reward_plate_st sigmoids action obs)
          (\<lambda>(reward, tcp_to_obj, tcp_opened, obj_to_target, object_grasped, in_place).
             let success = float_of_bool (obj_to_target \<le> 0.07);
                 near_object = float_of_bool (tcp_to_obj \<le> 0.03);
                 info = [(''success'', success),
                         (''near_object'', near_object),
                         (''grasp_success'', 0.0),
                         (''grasp_reward'', object_grasped),
                         (''in_place_reward'', in_place),
                         (''obj_to_target'', obj_to_target),
                         (''unscaled_reward'', reward)] in
             return_m (reward, info)))"

text \<open>Reach.\<close>

definition compute_reward_reach_st ::
  "(string \<Rightarrow> real \<Rightarrow> real) \<Rightarrow> ndarray \<Rightarrow> ndarray
     \<Rightarrow> ('e sawyer_xyz_env_scheme, real \<times> real \<times> real) call" where
  "compute_reward_reach_st sigmoids actions obs =
     (let TARGET_RADIUS = 0.05 in
      bind_m (getattr_m tcp_center) (\<lambda>tcp.
      bind_m (getattr_m target_pos) (\<lambda>target.
      bind_m (local_m (vsub tcp target)) (\<lambda>tcp_minus_target.
      let tcp_to_target = linalg_norm tcp_minus_target in
      bind_m (getattr_m hand_init_pos) (\<lambda>hand_init.
      bind_m (local_m (vsub hand_init target)) (\<lambda>hand_minus_target.
      let in_place_margin = linalg_norm hand_minus_target in
      bind_m (local_m (tolerance sigmoids tcp_to_target (0, TARGET_RADIUS)
                         in_place_margin ''long_tail'')) (\<lambda>in_place.
      return_m (10 * in_place, tcp_to_target, in_place))))))))"

definition evaluate_state_reach_st ::
  "(string \<Rightarrow> real \<Rightarrow> real) \<Rightarrow> ndarray \<Rightarrow> ndarray
     \<Rightarrow> ('e sawyer_xyz_env_scheme, real \<times> info) call" where
  "evaluate_state_reach_st sigmoids obs action =
     assert_task_is_set_st
       (bind_m (compute_reward_reach_st sigmoids action obs)
          (\<lambda>(reward, reach_dist, in_place).
             let success = float_of_bool (reach_dist \<le> 0.05);
                 info = [(''success'', success),
                         (''near_object'', reach_dist),
                         (''grasp_success'', 1.0),
                         (''grasp_reward'', reach_dist),
                         (''in_place_reward'', in_place),
                         (''obj_to_target'', reach_dist),
                         (''unscaled_reward'', reward)] in
             return_m (reward, info)))"

text \<open>Button press (wall).\<close>

definition compute_reward_button_st ::
  "(string \<Rightarrow> real \<Rightarrow> real) \<Rightarrow> ndarray \<Rightarrow> ndarray
     \<Rightarrow> ('e button_press_wall_env_scheme, reward_tuple) call" where
  "compute_reward_button_st sigmoids action obs =
     (let obj = slice obs 4 7 in
      bind_m (getattr_m tcp_center) (\<lambda>tcp.
      bind_m (local_m (vsub obj tcp)) (\<lambda>obj_minus_tcp.
      let tcp_to_obj = linalg_norm obj_minus_tcp in
      bind_m (getattr_m init_tcp) (\<lambda>init_tcp_read.
      bind_m (local_m (vsub obj init_tcp_read)) (\<lambda>obj_minus_init.
      let tcp_to_obj_init = linalg_norm obj_minus_init in
      bind_m (getattr_m target_pos) (\<lambda>target.
      bind_m (local_m (item target 1)) (\<lambda>target1.
      bind_m (local_m (item obj 1)) (\<lambda>obj1.
      let obj_to_target = \<bar>target1 - obj1\<bar> in
      bind_m (local_m (tolerance sigmoids tcp_to_obj (0, 0.01) tcp_to_obj_init ''long_tail''))
        (\<lambda>near_button.
      bind_m (getattr_m obj_to_target_init) (\<lambda>margin.
      bind_m (local_m (tolerance sigmoids obj_to_target (0, 0.005) margin ''long_tail''))
        (\<lambda>button_pressed.
      bind_m (local_m
        (if tcp_to_obj > 0.07
         then bind_err (item obs 3) (\<lambda>obs3.
                let tcp_status = (1 - obs3) / 2.0 in
                Inr (2 * hamacher_product tcp_status near_button))
         else bind_err (item obs 3) (\<lambda>obs3.
                let reward = 2;
                    reward = reward + 2 * (1 + obs3);
                    reward = reward + 4 * button_pressed ^ 2 in
                Inr reward))) (\<lambda>reward.
      bind_m (local_m (item obs 3)) (\<lambda>obs3.
      return_m
        (reward, tcp_to_obj, obs3, obj_to_target, near_button, button_pressed))))))))))))))"

definition evaluate_state_button_st ::
  "(string \<Rightarrow> real \<Rightarrow> real) \<Rightarrow> ndarray \<Rightarrow> ndarray
     \<Rightarrow> ('e button_press_wall_env_scheme, real \<times> info) call" where
  "evaluate_state_button_st sigmoids obs action =
     assert_task_is_set_st
       (bind_m (compute_reward_button_st sigmoids action obs)
          (\<lambda>(reward, tcp_to_obj, tcp_open, obj_to_target, near_button, button_pressed).
             let info = [(''success'', float_of_bool (obj_to_target \<le> 0.03)),
                         (''near_object'', float_of_bool (tcp_to_obj \<le> 0.05)),
                         (''grasp_success'', float_of_bool (tcp_open > 0)),
                         (''grasp_reward'', near_button),
                         (''in_place_reward'', button_pressed),
                         (''obj_to_target'', obj_to_target),
                         (''unscaled_reward'', reward)] in
             return_m (reward, info)))"

text \<open>
  Window open. \<open>_get_pos_objects\<close> asks the simulator for the position of the site
  \<open>handleOpenStart\<close>.
\<close>

definition get_pos_objects_window_st :: "('e window_open_env_scheme, ndarray) call" where
  "get_pos_objects_window_st = getattr_m (\<lambda>self. site_pos self ''handleOpenStart'')"

definition compute_reward_window_st ::
  "(string \<Rightarrow> real \<Rightarrow> real) \<Rightarrow> ndarray \<Rightarrow> ndarray
     \<Rightarrow> ('e window_open_env_scheme, reward_tuple) call" where
  "compute_reward_window_st sigmoids actions obs =
     bind_m get_pos_objects_window_st (\<lambda>obj.
     bind_m (getattr_m tcp_center) (\<lambda>tcp.
     bind_m (getattr_m target_pos) (\<lambda>target.
     bind_m (local_m (item obj 0)) (\<lambda>obj0.
     bind_m (local_m (item target 0)) (\<lambda>target0.
     let target_to_obj = linalg_norm_scalar (obj0 - target0) in
     bind_m (getattr_m obj_init_pos) (\<lambda>obj_init.
     bind_m (local_m (item obj_init 0)) (\<lambda>init0.
     let target_to_obj_init = linalg_norm_scalar (init0 - target0) in
     bind_m (local_m (tolerance sigmoids target_to_obj (0, TARGET_RADIUS_window)
                        \<bar>target_to_obj_init - TARGET_RADIUS_window\<bar> ''long_tail''))
       (\<lambda>in_place.
     let handle_radius = 0.02 in
     bind_m (local_m (vsub obj tcp)) (\<lambda>obj_minus_tcp.
     let tcp_to_obj = linalg_norm obj_minus_tcp in
     bind_m (getattr_m window_handle_pos_init) (\<lambda>handle_init.
     bind_m (getattr_m init_tcp) (\<lambda>init_tcp_read.
     bind_m (local_m (vsub handle_init init_tcp_read)) (\<lambda>handle_minus_init.
     let tcp_to_obj_init = linalg_norm handle_minus_init in
     bind_m (local_m (tolerance sigmoids tcp_to_obj (0, handle_radius)
                        \<bar>tcp_to_obj_init - handle_radius\<bar> ''long_tail'')) (\<lambda>reach.
     let tcp_opened = 0;
         object_grasped = reach;
         reward = 10 * hamacher_product reach in_place in
     return_m
       (reward, tcp_to_obj, tcp_opened, target_to_obj, object_grasped, in_place))))))))))))))"

definition evaluate_state_window_st ::
  "(string \<Rightarrow> real \<Rightarrow> real) \<Rightarrow> ndarray \<Rightarrow> ndarray
     \<Rightarrow> ('e window_open_env_scheme, real \<times> info) call" where
  "evaluate_state_window_st sigmoids obs action =
     assert_task_is_set_st
       (bind_m (compute_reward_window_st sigmoids action obs)
          (\<lambda>(reward, tcp_to_obj, tcp_opened, target_to_obj, object_grasped, in_place).
             let info = [(''success'', float_of_bool (target_to_obj \<le> TARGET_RADIUS_window)),
                         (''near_object'', float_of_bool (tcp_to_obj \<le> 0.05)),
                         (''grasp_success'', 1.0),
                         (''grasp_reward'', object_grasped),
                         (''in_place_reward'', in_place),
                         (''obj_to_target'', target_to_obj),
                         (''unscaled_reward'', reward)] in
             return_m (reward, info)))"

subsection \<open>Example episode states\<close>

text \<open>
  Concrete states and observations on which the definitions are run. The decay table
  of the examples gives every family the curve \<open>1 / (x\<^sup>2 + 1)\<close>.
\<close>

definition long_tail_example :: "string \<Rightarrow> real \<Rightarrow> real" where
  "long_tail_example sigmoid x = 1 / (x * x + 1)"

text \<open>Plate slide: the hand and the puck are both at the target.\<close>

definition plate_example :: sawyer_xyz_env where
  "plate_example =
     \<lparr>task_is_set = True, tcp_center = [0, 0.6, 0.015], init_tcp = [0, 0.6, 0.2],
      target_pos = [0, 0.6, 0.015], obj_init_pos = [- 0.25, 0.6, 0],
      hand_init_pos = [0, 0.6, 0.2], site_pos = (\<lambda>name. []), body_com = (\<lambda>name. [])\<rparr>"

definition plate_example_obs :: ndarray where
  "plate_example_obs = [0, 0.6, 0.015, 1, 0, 0.6, 0.015]"

text \<open>Reach: the hand is at its initial position, 0.2 away from the target.\<close>

definition reach_example :: sawyer_xyz_env where
  "reach_example =
     \<lparr>task_is_set = True, tcp_center = [0, 0.6, 0.2], init_tcp = [0, 0.6, 0.2],
      target_pos = [0, 0.8, 0.2], obj_init_pos = [0, 0.6, 0.02],
      hand_init_pos = [0, 0.6, 0.2], site_pos = (\<lambda>name. []),
      body_com = (\<lambda>name. [0, 0.6, 0.02])\<rparr>"

text \<open>
  Two draws of the random vector of the reach task: the first has object and goal 0.1
  apart in their first two coordinates, every later one has them further apart than 0.15.
\<close>

definition rand_vec_example :: "nat \<Rightarrow> ndarray" where
  "rand_vec_example k =
     (if k = 0 then [0, 0.7, 0.02, 0, 0.8, 0.1] else [0.1, 0.6, 0.02, - 0.1, 0.9, 0.2])"

text \<open>
  Button press: the hand 0.3 away from the button (far regime), and the hand on the
  button with the button at its target (near regime).
\<close>

definition button_far_example :: button_press_wall_env where
  "button_far_example =
     \<lparr>task_is_set = True, tcp_center = [0, 0.4, 0.2], init_tcp = [0, 0.4, 0.2],
      target_pos = [0, 0.78, 0.12], obj_init_pos = [0, 0.9, 0.115],
      hand_init_pos = [0, 0.4, 0.2], site_pos = (\<lambda>name. []), body_com = (\<lambda>name. []),
      obj_to_target_init = 0.08\<rparr>"

definition button_far_obs :: ndarray where
  "button_far_obs = [0, 0.4, 0.2, 0, 0, 0.7, 0.2]"

definition button_near_example :: button_press_wall_env where
  "button_near_example =
     \<lparr>task_is_set = True, tcp_center = [0, 0.7, 0.2], init_tcp = [0, 0.4, 0.2],
      target_pos = [0, 0.7, 0.12], obj_init_pos = [0, 0.9, 0.115],
      hand_init_pos = [0, 0.4, 0.2], site_pos = (\<lambda>name. []), body_com = (\<lambda>name. []),
      obj_to_target_init = 0.08\<rparr>"

definition button_near_obs :: ndarray where
  "button_near_obs = [0, 0.7, 0.2, 1, 0, 0.7, 0.2]"

text \<open>Window open: the handle is at the target and the hand on the handle.\<close>

definition window_example :: window_open_env where
  "window_example =
     \<lparr>task_is_set = True, tcp_center = [0.1, 0.7, 0.16], init_tcp = [- 0.1, 0.4, 0.16],
      target_pos = [0.1, 0.7, 0.16], obj_init_pos = [- 0.1, 0.7, 0.16],
      hand_init_pos = [0, 0.4, 0.2], site_pos = (\<lambda>name. [0.1, 0.7, 0.16]),
      body_com = (\<lambda>name. []), window_handle_pos_init = [- 0.1, 0.7, 0.16]\<rparr>"

definition success_info_example :: "real \<Rightarrow> info" where
  "success_info_example grasp_success =
     [(''success'', 1), (''near_object'', 1), (''grasp_success'', grasp_success),
      (''grasp_reward'', 1), (''in_place_reward'', 1), (''obj_to_target'', 0),
      (''unscaled_reward'', 10)]"

text \<open>
  Observations for the reach and the window-open task, of the same layout as the one of
  the plate-slide task: hand position, gripper state, object position. Neither task
  reads its observation.
\<close>

definition reach_example_obs :: ndarray where
  "reach_example_obs = [0, 0.6, 0.2, 1, 0, 0.6, 0.02]"

definition window_example_obs :: ndarray where
  "window_example_obs = [0.1, 0.7, 0.16, 1, 0.1, 0.7, 0.16]"

text \<open>
  Window open, with the handle back at its initial position: the state above except for
  the answer of the simulator about the site of the handle.
\<close>

definition window_closed_example :: window_open_env where
  "window_closed_example = window_example\<lparr>site_pos := (\<lambda>name. [- 0.1, 0.7, 0.16])\<rparr>"

section \<open>Properties\<close>

subsection \<open>Errors, arrays and norms\<close>

lemma bind_err_Inr_iff: "bind_err m f = Inr r \<longleftrightarrow> (\<exists>v. m = Inr v \<and> f v = Inr r)"
  by (cases m) (simp_all add: bind_err_def)

lemma bind_err_Inr [simp]: "bind_err (Inr v) f = f v"
  by (simp add: bind_err_def)

lemma bind_err_Inl [simp]: "bind_err (Inl e) f = Inl e"
  by (simp add: bind_err_def)

lemma sum_squares_nonneg: "0 \<le> sum_list (map (\<lambda>x. x * x) (xs :: real list))"
  by (induction xs) simp_all

lemma linalg_norm_nonneg: "0 \<le> linalg_norm xs"
  by (simp add: linalg_norm_def sum_squares_nonneg)

lemma linalg_norm_less_iff:
  assumes "0 \<le> c"
  shows "linalg_norm xs < c \<longleftrightarrow> sum_list (map (\<lambda>x. x * x) xs) < c * c"
proof -
  have "sqrt (c * c) = c" using assms by simp
  then show ?thesis
    unfolding linalg_norm_def
    using real_sqrt_less_iff [of "sum_list (map (\<lambda>x. x * x) xs)" "c * c"]
    by simp
qed

lemma linalg_norm_le_iff:
  assumes "0 \<le> c"
  shows "linalg_norm xs \<le> c \<longleftrightarrow> sum_list (map (\<lambda>x. x * x) xs) \<le> c * c"
proof -
  have "sqrt (c * c) = c" using assms by simp
  then show ?thesis
    unfolding linalg_norm_def
    using real_sqrt_le_iff [of "sum_list (map (\<lambda>x. x * x) xs)" "c * c"]
    by simp
qed

lemma linalg_norm_scalar_abs: "linalg_norm_scalar x = \<bar>x\<bar>"
  by (simp add: linalg_norm_scalar_def linalg_norm_def)

lemma vsub_same_length:
  "length xs = length ys \<Longrightarrow> vsub xs ys = Inr (map2 (\<lambda>x y. x - y) xs ys)"
  by (simp add: vsub_def broadcast_def)

lemma item_nat: "n < length xs \<Longrightarrow> item xs (int n) = Inr (xs ! n)"
  by (simp add: item_def)

lemma tolerance_valid:
  "0 < margin \<Longrightarrow> lo \<le> hi \<Longrightarrow> \<exists>v. tolerance sigmoids x (lo, hi) margin sigmoid = Inr v"
  by (simp add: tolerance_def Let_def)

lemma tolerance_in_bounds:
  "tolerance sigmoids x (lo, hi) margin sigmoid = Inr v \<Longrightarrow> lo \<le> x \<Longrightarrow> x \<le> hi \<Longrightarrow> v = 1"
  by (simp add: tolerance_def Let_def split: if_splits)

subsection \<open>Plate slide\<close>

text \<open>
  On a well-shaped observation and episode state whose two shaping margins are valid,
  \<open>compute_reward\<close> of the plate-slide task returns a result.
\<close>

lemma compute_reward_plate_returns:
  assumes "7 \<le> length obs"
    and "length (target_pos env) = 3" and "length (obj_init_pos env) = 3"
    and "length (tcp_center env) = 3" and "length (init_tcp env) = 3"
    and "0.05 < linalg_norm (map2 (\<lambda>x y. x - y) (obj_init_pos env) (target_pos env))"
    and "0.05 < linalg_norm (map2 (\<lambda>x y. x - y) (init_tcp env) (obj_init_pos env))"
  shows "\<exists>r. compute_reward_plate sigmoids env actions obs = Inr r"
proof -
  have obj: "length (slice obs 4 7) = 3" using assms(1) by (simp add: slice_def)
  have i3: "item obs 3 = Inr (obs ! 3)" using assms(1) item_nat [of 3 obs] by simp
  have t2: "item (tcp_center env) 2 = Inr (tcp_center env ! 2)"
    using assms(4) item_nat [of 2 "tcp_center env"] by simp
  obtain ip where ip: "tolerance sigmoids
      (linalg_norm (map2 (\<lambda>x y. x - y) (slice obs 4 7) (target_pos env))) (0, 0.05)
      (linalg_norm (map2 (\<lambda>x y. x - y) (obj_init_pos env) (target_pos env)) - 0.05)
      ''long_tail'' = Inr ip"
    using tolerance_valid
      [of "linalg_norm (map2 (\<lambda>x y. x - y) (obj_init_pos env) (target_pos env)) - 0.05" 0 "0.05"]
      assms(6) by fastforce
  obtain og where og: "tolerance sigmoids
      (linalg_norm (map2 (\<lambda>x y. x - y) (tcp_center env) (slice obs 4 7))) (0, 0.05)
      (linalg_norm (map2 (\<lambda>x y. x - y) (init_tcp env) (obj_init_pos env)) - 0.05)
      ''long_tail'' = Inr og"
    using tolerance_valid
      [of "linalg_norm (map2 (\<lambda>x y. x - y) (init_tcp env) (obj_init_pos env)) - 0.05" 0 "0.05"]
      assms(7) by fastforce
  show ?thesis
    using ip og unfolding compute_reward_plate_def Let_def
    by (simp add: i3 t2 vsub_same_length obj assms(2-5))
qed

text \<open>
  Claim C1. In the plate-slide task, whenever the 3D distance from the object
  (\<open>obs[4:7]\<close>) to the target is strictly less than 0.05, the reward returned by
  \<open>compute_reward\<close> is exactly 10, whatever the other shaping terms are; the fourth
  component of the result is that distance.
\<close>

theorem plate_slide_reward_saturates:
  assumes "compute_reward_plate sigmoids env actions obs =
             Inr (reward, tcp_to_obj, tcp_opened, obj_to_target, object_grasped, in_place)"
    and "vsub (slice obs 4 7) (target_pos env) = Inr d"
    and "linalg_norm d < 0.05"
  shows "reward = 10 \<and> obj_to_target = linalg_norm d"
  using assms
  apply (simp only: compute_reward_plate_def Let_def bind_err_Inr_iff)
  apply (elim exE conjE)
  apply (clarsimp split: if_splits)
  done

text \<open>The example state of the plate-slide task, evaluated.\<close>

lemma compute_reward_plate_example:
  "compute_reward_plate long_tail_example plate_example [] plate_example_obs
     = Inr (10, 0, 1, 0, 1, 1)"
proof -
  have a: "linalg_norm [0, 0, 0] = 0" by (simp add: linalg_norm_def)
  have b: "\<not> linalg_norm [1 / 4, 0, 1 / 5] \<le> 1 / 20"
    using linalg_norm_le_iff [of "1 / 20" "[1 / 4, 0, 1 / 5]"] by simp
  have c: "\<not> linalg_norm [- (1 / 4), 0, - (3 / 200)] \<le> 1 / 20"
    using linalg_norm_le_iff [of "1 / 20" "[- (1 / 4), 0, - (3 / 200)]"] by simp
  show ?thesis
    using a b c
    by (simp add: compute_reward_plate_def plate_example_def plate_example_obs_def slice_def
        item_def vsub_def broadcast_def tolerance_def Let_def)
qed

lemma evaluate_state_plate_example:
  "evaluate_state_plate long_tail_example plate_example plate_example_obs []
     = Inr (10, success_info_example 0)"
proof -
  have "task_is_set plate_example" by (simp add: plate_example_def)
  then show ?thesis
    using compute_reward_plate_example
    unfolding evaluate_state_plate_def assert_task_is_set_def
    by (simp add: float_of_bool_def success_info_example_def)
qed

theorem plate_slide_reward_saturates_witness:
  "compute_reward_plate long_tail_example plate_example [] plate_example_obs
     = Inr (10, 0, 1, 0, 1, 1)
   \<and> vsub (slice plate_example_obs 4 7) (target_pos plate_example) = Inr [0, 0, 0]
   \<and> linalg_norm [0, 0, 0] < 0.05"
proof -
  have d: "vsub (slice plate_example_obs 4 7) (target_pos plate_example) = Inr [0, 0, 0]"
    by (simp add: plate_example_def plate_example_obs_def slice_def vsub_def broadcast_def)
  have n: "linalg_norm [0, 0, 0] < 0.05" by (simp add: linalg_norm_def)
  from plate_slide_reward_saturates [OF compute_reward_plate_example d n]
    compute_reward_plate_example d n
  show ?thesis by simp
qed

text \<open>
  Claim C9. In the plate-slide task, every result of \<open>evaluate_state\<close> (which exists
  only once the task is set) has the entry \<open>grasp_success\<close> of its info dict equal to
  the constant 0, whatever the gripper state, the object position and the shaping terms.
\<close>

theorem plate_slide_grasp_success_zero:
  assumes "evaluate_state_plate sigmoids env obs action = Inr (reward, info)"
  shows "task_is_set env \<and> map_of info ''grasp_success'' = Some 0"
  using assms unfolding evaluate_state_plate_def assert_task_is_set_def
  by (auto simp: bind_err_Inr_iff Let_def split: if_splits prod.splits)

theorem plate_slide_grasp_success_zero_witness:
  "evaluate_state_plate long_tail_example plate_example plate_example_obs []
     = Inr (10, success_info_example 0)
   \<and> task_is_set plate_example
   \<and> map_of (success_info_example 0) ''grasp_success'' = Some 0"
  using plate_slide_grasp_success_zero [OF evaluate_state_plate_example]
    evaluate_state_plate_example
  by simp

subsection \<open>Reach: the reward\<close>

text \<open>
  On three-dimensional positions with the initial hand position away from the target,
  \<open>compute_reward\<close> of the reach task returns a result.
\<close>

lemma compute_reward_reach_returns:
  assumes "length (tcp_center env) = 3" and "length (target_pos env) = 3"
    and "length (hand_init_pos env) = 3"
    and "0 < linalg_norm (map2 (\<lambda>x y. x - y) (hand_init_pos env) (target_pos env))"
  shows "\<exists>r. compute_reward_reach sigmoids env actions obs = Inr r"
proof -
  obtain ip where "tolerance sigmoids
      (linalg_norm (map2 (\<lambda>x y. x - y) (tcp_center env) (target_pos env))) (0, 0.05)
      (linalg_norm (map2 (\<lambda>x y. x - y) (hand_init_pos env) (target_pos env)))
      ''long_tail'' = Inr ip"
    using tolerance_valid
      [of "linalg_norm (map2 (\<lambda>x y. x - y) (hand_init_pos env) (target_pos env))" 0 "0.05"]
      assms(4) by fastforce
  then show ?thesis
    unfolding compute_reward_reach_def Let_def
    by (simp add: vsub_same_length assms(1-3))
qed

text \<open>
  Claim C2. In the reach task, every result of \<open>compute_reward\<close> has the scalar reward
  exactly \<open>10 * in_place\<close>, where \<open>in_place\<close> is the long-tail tolerance score of the
  3D distance from the gripper to the target, with bounds \<open>(0, 0.05)\<close> and the distance
  from the initial hand position to the target as margin; nothing else enters the reward.
\<close>

theorem reach_reward_is_ten_in_place:
  assumes "compute_reward_reach sigmoids env actions obs = Inr (reward, tcp_to_target, in_place)"
  shows "\<exists>d m. vsub (tcp_center env) (target_pos env) = Inr d
           \<and> vsub (hand_init_pos env) (target_pos env) = Inr m
           \<and> tcp_to_target = linalg_norm d
           \<and> tolerance sigmoids (linalg_norm d) (0, 0.05) (linalg_norm m) ''long_tail''
               = Inr in_place
           \<and> reward = 10 * in_place"
  using assms
  apply (simp only: compute_reward_reach_def Let_def bind_err_Inr_iff)
  apply (elim exE conjE)
  apply clarsimp
  done

theorem reach_reward_is_ten_in_place_witness:
  "compute_reward_reach long_tail_example reach_example [] [] = Inr (32 / 5, 1 / 5, 16 / 25)
   \<and> vsub (tcp_center reach_example) (target_pos reach_example) = Inr [0, - (1 / 5), 0]
   \<and> linalg_norm [0, - (1 / 5), 0] = 1 / 5
   \<and> tolerance long_tail_example (1 / 5) (0, 0.05) (1 / 5) ''long_tail'' = Inr (16 / 25)"
proof -
  have n: "linalg_norm [0, - (1 / 5), 0] = 1 / 5"
    by (simp add: linalg_norm_def real_sqrt_divide)
  have d: "vsub (tcp_center reach_example) (target_pos reach_example) = Inr [0, - (1 / 5), 0]"
    by (simp add: reach_example_def vsub_def broadcast_def)
  have ev: "compute_reward_reach long_tail_example reach_example [] []
              = Inr (32 / 5, 1 / 5, 16 / 25)"
    by (simp add: compute_reward_reach_def reach_example_def long_tail_example_def vsub_def
        broadcast_def tolerance_def Let_def n)
  have t: "tolerance long_tail_example (1 / 5) (0, 0.05) (1 / 5) ''long_tail'' = Inr (16 / 25)"
    by (simp add: tolerance_def long_tail_example_def Let_def)
  from reach_reward_is_ten_in_place [OF ev] have "(32 / 5 :: real) = 10 * (16 / 25)"
    by (elim exE conjE)
  with ev d n t show ?thesis by (intro conjI)
qed

subsection \<open>Reach: the adjustment of the initial object position\<close>

lemma map2_minus_self:
  "map2 (\<lambda>x y. x - y) xs xs = replicate (length xs) (0 :: real)"
  by (induction xs) simp_all

lemma fix_extreme_diff_zero:
  "vsub (slice com 0 2) (slice com 0 2) = Inr (replicate (min 2 (length com)) 0)"
  by (simp add: vsub_same_length map2_minus_self slice_def min.commute)

lemma item_last: "xs \<noteq> [] \<Longrightarrow> item xs (- 1) = Inr (last xs)"
  by (cases xs rule: rev_cases) (simp_all add: item_def)

lemma fix_extreme_obj_pos_value:
  assumes "body_com env ''obj'' \<noteq> []" and "2 \<le> length orig_init_pos"
  shows "fix_extreme_obj_pos env orig_init_pos
           = Inr [orig_init_pos ! 0, orig_init_pos ! 1, last (body_com env ''obj'')]"
proof -
  let ?com = "body_com env ''obj''"
  obtain a b rest where orig: "orig_init_pos = a # b # rest"
    using assms(2) by (cases orig_init_pos; cases "tl orig_init_pos") auto
  have add: "vadd (slice orig_init_pos 0 2) (replicate (min 2 (length ?com)) 0) = Inr [a, b]"
  proof (cases "length ?com = 1")
    case True
    then show ?thesis by (simp add: vadd_def broadcast_def slice_def orig)
  next
    case False
    with assms(1) have "2 \<le> length ?com"
      by (cases ?com; cases "tl ?com") auto
    then have "min 2 (length ?com) = 2" by simp
    then show ?thesis
      by (simp add: vadd_def broadcast_def slice_def orig numeral_2_eq_2)
  qed
  have i0: "item [a, b] 0 = Inr a" and i1: "item [a, b] 1 = Inr b"
    by (simp_all add: item_def)
  have "fix_extreme_obj_pos env orig_init_pos = Inr [a, b, last ?com]"
    unfolding fix_extreme_obj_pos_def
    by (simp add: fix_extreme_diff_zero add item_last [OF assms(1)] i0 i1)
  then show ?thesis by (simp add: orig)
qed

text \<open>
  Claim C10. In the reach task \<open>fix_extreme_obj_pos\<close> adjusts by zero: the difference it
  computes is a quantity subtracted from itself, the zero vector, so for every input
  position the result has the first two coordinates of the input and, as third
  coordinate, the last coordinate of the centre of mass of the body.
\<close>

theorem fix_extreme_obj_pos_zero_adjustment:
  assumes "body_com env ''obj'' \<noteq> []" and "2 \<le> length orig_init_pos"
  shows "vsub (slice (body_com env ''obj'') 0 2) (slice (body_com env ''obj'') 0 2)
           = Inr (replicate (min 2 (length (body_com env ''obj''))) 0)
       \<and> fix_extreme_obj_pos env orig_init_pos
           = Inr [orig_init_pos ! 0, orig_init_pos ! 1, last (body_com env ''obj'')]"
  using fix_extreme_diff_zero [of "body_com env ''obj''"] fix_extreme_obj_pos_value [OF assms]
  by (rule conjI)

theorem fix_extreme_obj_pos_zero_adjustment_witness:
  "body_com reach_example ''obj'' \<noteq> [] \<and> 2 \<le> length [0.05, 0.65, 0.5 :: real]
   \<and> vsub (slice [0, 0.6, 0.02] 0 2) (slice [0, 0.6, 0.02] 0 2) = Inr [0, 0]
   \<and> fix_extreme_obj_pos reach_example [0.05, 0.65, 0.5] = Inr [0.05, 0.65, 0.02]"
  using fix_extreme_obj_pos_zero_adjustment [of reach_example "[0.05, 0.65, 0.5]"]
  by (simp add: reach_example_def numeral_2_eq_2)

subsection \<open>Reach: the rejection loop of the reset\<close>

text \<open>
  Whatever the loop returns was accepted by its test: the target it carries is the goal
  part of the accepted draw, and the first two coordinates of object and goal are not
  closer than 0.15.
\<close>

lemma resample_accepted:
  assumes "resample rand_vec k goal_pos target = Some r"
  shows "\<forall>g t k'. r = Inr (g, t, k') \<longrightarrow> target = drop 3 goal_pos \<longrightarrow>
           t = drop 3 g
           \<and> (\<exists>d. vsub (slice g 0 2) (slice t 0 2) = Inr d \<and> \<not> linalg_norm d < 0.15)
           \<and> (g = goal_pos \<or> (\<exists>j. g = rand_vec j))"
proof (rule resample.raw_induct [OF _ assms], goal_cases)
  case (1 res rv k gp tg r)
  show ?case
  proof (cases "vsub (slice gp 0 2) (slice tg 0 2)")
    case (Inl e)
    with 1(2) show ?thesis by auto
  next
    case (Inr d)
    show ?thesis
    proof (cases "linalg_norm d < 0.15")
      case True
      with Inr 1(2) have "res rv (Suc k) (rv k) (drop 3 (rv k)) = Some r" by simp
      from 1(1) [OF this] show ?thesis by blast
    next
      case False
      with Inr 1(2) have "r = Inr (gp, tg, k)" by simp
      with Inr False show ?thesis by auto
    qed
  qed
qed

lemma sample_slices:
  assumes "length g = 6"
  shows "last_n g 3 = drop 3 g" and "slice (slice g 0 3) 0 2 = slice g 0 2"
    and "vsub (slice g 0 2) (slice (drop 3 g) 0 2)
           = Inr (map2 (\<lambda>x y. x - y) (take 2 g) (take 2 (drop 3 g)))"
  using assms by (simp_all add: last_n_def slice_def vsub_same_length min_def)

text \<open>
  Claim C3. In the reach task, every configuration the rejection loop of \<open>reset_model\<close>
  produces, the draws being vectors of six coordinates, has object position and goal
  position at distance at least 0.15 in their first two coordinates.
\<close>

theorem reach_reset_min_separation:
  assumes "reset_model_reach rand_vec env = Some (Inr env')"
    and "\<forall>k. length (rand_vec k) = 6"
  shows "\<exists>d. vsub (slice (obj_init_pos env') 0 2) (slice (target_pos env') 0 2) = Inr d
           \<and> 0.15 \<le> linalg_norm d"
proof -
  from assms(1) obtain g t k' where
    r: "resample rand_vec 1 (rand_vec 0) (drop 3 (rand_vec 0)) = Some (Inr (g, t, k'))"
    and o: "obj_init_pos env' = slice g 0 3" and tp: "target_pos env' = last_n g 3"
    unfolding reset_model_reach_def Let_def
    by (auto split: sum.splits option.splits)
  from resample_accepted [OF r] obtain d where
    t: "t = drop 3 g" and d: "vsub (slice g 0 2) (slice t 0 2) = Inr d"
    and n: "\<not> linalg_norm d < 0.15" and g: "g = rand_vec 0 \<or> (\<exists>j. g = rand_vec j)"
    by blast
  from g assms(2) have len: "length g = 6" by auto
  have "vsub (slice (obj_init_pos env') 0 2) (slice (target_pos env') 0 2) = Inr d"
    using d by (simp add: o tp t sample_slices(1,2) [OF len])
  with n show ?thesis by auto
qed

text \<open>
  The loop ends as soon as a draw passes the test: if some draw keeps object and goal
  0.15 apart, the loop and the reset return.
\<close>

lemma resample_returns:
  assumes "\<forall>j. length (rand_vec j) = 6"
    and "0.15 \<le> linalg_norm (map2 (\<lambda>x y. x - y)
           (take 2 (rand_vec (k + n))) (take 2 (drop 3 (rand_vec (k + n)))))"
    and "length goal_pos = 6"
  shows "\<exists>g t k'. resample rand_vec k goal_pos (drop 3 goal_pos) = Some (Inr (g, t, k'))"
  using assms(2,3)
proof (induction n arbitrary: k goal_pos)
  case 0
  have v: "vsub (slice goal_pos 0 2) (slice (drop 3 goal_pos) 0 2)
      = Inr (map2 (\<lambda>x y. x - y) (take 2 goal_pos) (take 2 (drop 3 goal_pos)))"
    by (rule sample_slices(3) [OF 0(2)])
  have w: "vsub (slice (rand_vec k) 0 2) (slice (drop 3 (rand_vec k)) 0 2)
      = Inr (map2 (\<lambda>x y. x - y) (take 2 (rand_vec k)) (take 2 (drop 3 (rand_vec k))))"
    using assms(1) by (intro sample_slices(3)) simp
  show ?case
  proof (cases "linalg_norm (map2 (\<lambda>x y. x - y) (take 2 goal_pos) (take 2 (drop 3 goal_pos))) < 0.15")
    case False
    then show ?thesis by (subst resample.simps) (simp add: v)
  next
    case True
    have "resample rand_vec k goal_pos (drop 3 goal_pos)
            = resample rand_vec (Suc k) (rand_vec k) (drop 3 (rand_vec k))"
      using True by (subst resample.simps) (simp add: v)
    also have "\<dots> = Some (Inr (rand_vec k, drop 3 (rand_vec k), Suc k))"
      using 0(1) by (subst resample.simps) (simp add: w)
    finally show ?thesis by blast
  qed
next
  case (Suc n)
  have v: "vsub (slice goal_pos 0 2) (slice (drop 3 goal_pos) 0 2)
      = Inr (map2 (\<lambda>x y. x - y) (take 2 goal_pos) (take 2 (drop 3 goal_pos)))"
    by (rule sample_slices(3) [OF Suc(3)])
  show ?case
  proof (cases "linalg_norm (map2 (\<lambda>x y. x - y) (take 2 goal_pos) (take 2 (drop 3 goal_pos))) < 0.15")
    case False
    then show ?thesis by (subst resample.simps) (simp add: v)
  next
    case True
    have e: "resample rand_vec k goal_pos (drop 3 goal_pos)
            = resample rand_vec (Suc k) (rand_vec k) (drop 3 (rand_vec k))"
      using True by (subst resample.simps) (simp add: v)
    have "\<exists>g t k'. resample rand_vec (Suc k) (rand_vec k) (drop 3 (rand_vec k))
            = Some (Inr (g, t, k'))"
      using Suc(2) assms(1) by (intro Suc.IH) simp_all
    with e show ?thesis by simp
  qed
qed

lemma reset_model_reach_returns:
  assumes "body_com env ''obj'' \<noteq> []" and "\<forall>j. length (rand_vec j) = 6"
    and "0.15 \<le> linalg_norm (map2 (\<lambda>x y. x - y)
           (take 2 (rand_vec n)) (take 2 (drop 3 (rand_vec n))))"
  shows "\<exists>env'. reset_model_reach rand_vec env = Some (Inr env')"
proof -
  have f: "fix_extreme_obj_pos env [0.0, 0.6, 0.02]
             = Inr [[0.0, 0.6, 0.02] ! 0, [0.0, 0.6, 0.02] ! 1, last (body_com env ''obj'')]"
    by (rule fix_extreme_obj_pos_value [OF assms(1)]) simp
  have len: "length (rand_vec 0) = 6" using assms(2) by simp
  have "\<exists>g t k'. resample rand_vec 1 (rand_vec 0) (drop 3 (rand_vec 0)) = Some (Inr (g, t, k'))"
  proof (cases n)
    case 0
    with assms(3) have "\<not> linalg_norm (map2 (\<lambda>x y. x - y)
           (take 2 (rand_vec 0)) (take 2 (drop 3 (rand_vec 0)))) < 0.15" by simp
    then show ?thesis
      by (subst resample.simps) (simp add: sample_slices(3) [OF len])
  next
    case (Suc m)
    with assms(3) have "0.15 \<le> linalg_norm (map2 (\<lambda>x y. x - y)
           (take 2 (rand_vec (1 + m))) (take 2 (drop 3 (rand_vec (1 + m)))))" by simp
    from resample_returns [OF assms(2) this len] show ?thesis .
  qed
  then obtain g t k' where
    "resample rand_vec 1 (rand_vec 0) (drop 3 (rand_vec 0)) = Some (Inr (g, t, k'))" by blast
  then show ?thesis
    unfolding reset_model_reach_def Let_def f by simp
qed

theorem reach_reset_min_separation_witness:
  "reset_model_reach rand_vec_example reach_example
     = Some (Inr (reach_example\<lparr>target_pos := [- 0.1, 0.9, 0.2],
                                obj_init_pos := [0.1, 0.6, 0.02]\<rparr>))
   \<and> (\<forall>k. length (rand_vec_example k) = 6)
   \<and> vsub (slice [0.1, 0.6, 0.02] 0 2) (slice [- 0.1, 0.9, 0.2] 0 2) = Inr [1 / 5, - (3 / 10)]
   \<and> 0.15 \<le> linalg_norm [1 / 5, - (3 / 10)]"
proof -
  have len: "\<forall>k. length (rand_vec_example k) = 6" by (simp add: rand_vec_example_def)
  have f: "fix_extreme_obj_pos reach_example [0.0, 0.6, 0.02] = Inr [0, 0.6, 0.02]"
    using fix_extreme_obj_pos_value [of reach_example "[0.0, 0.6, 0.02]"]
    by (simp add: reach_example_def)
  have n0: "linalg_norm [0, - (1 / 10)] < 15 / 100"
    using linalg_norm_less_iff [of "15 / 100" "[0, - (1 / 10)]"] by simp
  have n1: "\<not> linalg_norm [1 / 5, - (3 / 10)] < 15 / 100"
    using linalg_norm_less_iff [of "15 / 100" "[1 / 5, - (3 / 10)]"] by simp
  have r1: "resample rand_vec_example (Suc 1) (rand_vec_example 1) (drop 3 (rand_vec_example 1))
              = Some (Inr ([0.1, 0.6, 0.02, - 0.1, 0.9, 0.2], [- 0.1, 0.9, 0.2], Suc 1))"
    using n1
    by (subst resample.simps) (simp add: rand_vec_example_def slice_def vsub_def broadcast_def)
  have r0: "resample rand_vec_example 1 (rand_vec_example 0) (drop 3 (rand_vec_example 0))
              = resample rand_vec_example (Suc 1) (rand_vec_example 1)
                  (drop 3 (rand_vec_example 1))"
    using n0
    by (subst resample.simps) (simp add: rand_vec_example_def slice_def vsub_def broadcast_def)
  have ev: "reset_model_reach rand_vec_example reach_example
     = Some (Inr (reach_example\<lparr>target_pos := [- 0.1, 0.9, 0.2],
                                obj_init_pos := [0.1, 0.6, 0.02]\<rparr>))"
    unfolding reset_model_reach_def Let_def f r0 r1
    by (simp add: last_n_def slice_def)
  have v: "vsub (slice [0.1, 0.6, 0.02] 0 2) (slice [- 0.1, 0.9, 0.2] 0 2)
             = Inr [1 / 5, - (3 / 10)]"
    by (simp add: slice_def vsub_def broadcast_def)
  from reach_reset_min_separation [OF ev len] have "0.15 \<le> linalg_norm [1 / 5, - (3 / 10)]"
    using v by (elim exE conjE) simp
  with ev len v show ?thesis by (intro conjI)
qed

subsection \<open>Button press: the staged reward\<close>

text \<open>
  Claim C5. In the button-press task the reward is staged on the threshold
  \<open>tcp_to_obj > 0.07\<close>: in the far regime it is twice the Hamacher product of the coarse
  gripper signal \<open>(1 - obs[3]) / 2\<close> and the tolerance score \<open>near_button\<close>; in the near
  regime it is the sum of the constant 2, the gripper term \<open>2 * (1 + obs[3])\<close> and the
  squared placement term \<open>4 * button_pressed ^ 2\<close>.
\<close>

theorem button_press_reward_staged:
  assumes "compute_reward_button sigmoids env action obs =
             Inr (reward, tcp_to_obj, tcp_open, obj_to_target, near_button, button_pressed)"
  shows "item obs 3 = Inr tcp_open
       \<and> (\<exists>d d0. vsub (slice obs 4 7) (tcp_center env) = Inr d \<and> tcp_to_obj = linalg_norm d
            \<and> vsub (slice obs 4 7) (init_tcp env) = Inr d0
            \<and> tolerance sigmoids tcp_to_obj (0, 0.01) (linalg_norm d0) ''long_tail''
                = Inr near_button)
       \<and> tolerance sigmoids obj_to_target (0, 0.005) (obj_to_target_init env) ''long_tail''
            = Inr button_pressed
       \<and> (if tcp_to_obj > 0.07
          then reward = 2 * hamacher_product ((1 - tcp_open) / 2) near_button
          else reward = 2 + 2 * (1 + tcp_open) + 4 * button_pressed ^ 2)"
  using assms
  apply (simp only: compute_reward_button_def Let_def bind_err_Inr_iff)
  apply (elim exE conjE)
  apply (clarsimp simp: bind_err_Inr_iff split: if_splits)
  done


theorem button_press_reward_staged_witness:
  "compute_reward_button long_tail_example button_far_example [] button_far_obs
     = Inr (1800 / 2641, 3 / 10, 0, 2 / 25, 900 / 1741, 256 / 481)
   \<and> (1800 / 2641 :: real) = 2 * hamacher_product ((1 - 0) / 2) (900 / 1741)
   \<and> compute_reward_button long_tail_example button_near_example [] button_near_obs
     = Inr (10, 0, 1, 0, 1, 1)
   \<and> (10 :: real) = 2 + 2 * (1 + 1) + 4 * 1 ^ 2"
proof -
  have n0: "linalg_norm [0, 0, 0] = 0" by (simp add: linalg_norm_def)
  have n3: "linalg_norm [0, 3 / 10, 0] = 3 / 10"
    by (simp add: linalg_norm_def real_sqrt_divide)
  have far: "compute_reward_button long_tail_example button_far_example [] button_far_obs
             = Inr (1800 / 2641, 3 / 10, 0, 2 / 25, 900 / 1741, 256 / 481)"
    by (simp add: compute_reward_button_def button_far_example_def button_far_obs_def
        long_tail_example_def slice_def item_def vsub_def broadcast_def tolerance_def
        hamacher_product_def Let_def n3)
  have near: "compute_reward_button long_tail_example button_near_example [] button_near_obs
             = Inr (10, 0, 1, 0, 1, 1)"
    by (simp add: compute_reward_button_def button_near_example_def button_near_obs_def
        long_tail_example_def slice_def item_def vsub_def broadcast_def tolerance_def
        Let_def n0 n3)
  have f: "(1800 / 2641 :: real) = 2 * hamacher_product ((1 - 0) / 2) (900 / 1741)"
    using button_press_reward_staged [OF far, THEN conjunct2, THEN conjunct2, THEN conjunct2]
    by simp
  have n: "(10 :: real) = 2 + 2 * (1 + 1) + 4 * 1 ^ 2"
    using button_press_reward_staged [OF near, THEN conjunct2, THEN conjunct2, THEN conjunct2]
    by simp
  from far f near n show ?thesis by (intro conjI)
qed

subsection \<open>Window open: placement score and success\<close>

text \<open>
  The distance along the slide axis is the absolute difference of the first coordinates
  of the handle and of the target, and at distance 0 the placement score is 1.
\<close>

lemma compute_reward_window_in_place:
  assumes "compute_reward_window sigmoids env actions obs =
             Inr (reward, tcp_to_obj, tcp_opened, target_to_obj, object_grasped, in_place)"
  shows "\<exists>obj0 target0. item (get_pos_objects_window env) 0 = Inr obj0
           \<and> item (target_pos env) 0 = Inr target0
           \<and> target_to_obj = \<bar>obj0 - target0\<bar>
           \<and> (target_to_obj = 0 \<longrightarrow> in_place = 1)"
  using assms
  apply (simp only: compute_reward_window_def Let_def bind_err_Inr_iff)
  apply (elim exE conjE)
  apply (clarsimp simp: linalg_norm_scalar_abs TARGET_RADIUS_window_def)
  apply (drule tolerance_in_bounds)
    apply simp_all
  done

text \<open>
  Claim C6. In the window-open task, every result of \<open>evaluate_state\<close> reports success
  exactly when the distance \<open>target_to_obj\<close> along the slide axis is at most 0.05, and
  whenever that distance is 0 the placement score \<open>in_place\<close> returned by
  \<open>compute_reward\<close> is 1 and the success entry is 1.
\<close>

theorem window_open_in_place_and_success:
  assumes "evaluate_state_window sigmoids env obs action = Inr (reward, info)"
  shows "\<exists>tcp_to_obj tcp_opened target_to_obj object_grasped in_place obj0 target0.
     compute_reward_window sigmoids env action obs =
       Inr (reward, tcp_to_obj, tcp_opened, target_to_obj, object_grasped, in_place)
     \<and> item (get_pos_objects_window env) 0 = Inr obj0
     \<and> item (target_pos env) 0 = Inr target0
     \<and> target_to_obj = \<bar>obj0 - target0\<bar>
     \<and> map_of info ''in_place_reward'' = Some in_place
     \<and> map_of info ''success'' = Some (if target_to_obj \<le> 0.05 then 1 else 0)
     \<and> (target_to_obj = 0 \<longrightarrow> in_place = 1 \<and> map_of info ''success'' = Some 1)"
proof -
  from assms obtain v where v: "compute_reward_window sigmoids env action obs = Inr v"
    and i: "(case v of (reward, tcp_to_obj, tcp_opened, target_to_obj, object_grasped, in_place) \<Rightarrow>
              Inr (reward,
                [(''success'', float_of_bool (target_to_obj \<le> TARGET_RADIUS_window)),
                 (''near_object'', float_of_bool (tcp_to_obj \<le> 0.05)),
                 (''grasp_success'', 1.0),
                 (''grasp_reward'', object_grasped),
                 (''in_place_reward'', in_place),
                 (''obj_to_target'', target_to_obj),
                 (''unscaled_reward'', reward)])) = (Inr (reward, info) :: error + real \<times> info)"
    unfolding evaluate_state_window_def assert_task_is_set_def
    by (auto simp: bind_err_Inr_iff Let_def split: if_splits)
  obtain r tcp_to_obj tcp_opened target_to_obj object_grasped in_place
    where t: "v = (r, tcp_to_obj, tcp_opened, target_to_obj, object_grasped, in_place)"
    by (cases v) auto
  from i t have r: "r = reward"
    and info: "info = [(''success'', float_of_bool (target_to_obj \<le> TARGET_RADIUS_window)),
                 (''near_object'', float_of_bool (tcp_to_obj \<le> 0.05)),
                 (''grasp_success'', 1.0),
                 (''grasp_reward'', object_grasped),
                 (''in_place_reward'', in_place),
                 (''obj_to_target'', target_to_obj),
                 (''unscaled_reward'', reward)]"
    by auto
  from v t r have cr: "compute_reward_window sigmoids env action obs =
       Inr (reward, tcp_to_obj, tcp_opened, target_to_obj, object_grasped, in_place)" by simp
  from compute_reward_window_in_place [OF cr] obtain obj0 target0 where
    w: "item (get_pos_objects_window env) 0 = Inr obj0" "item (target_pos env) 0 = Inr target0"
       "target_to_obj = \<bar>obj0 - target0\<bar>" "target_to_obj = 0 \<longrightarrow> in_place = 1"
    by blast
  have s: "map_of info ''success'' = Some (if target_to_obj \<le> 0.05 then 1 else 0)"
    by (simp add: info float_of_bool_def TARGET_RADIUS_window_def)
  have p: "map_of info ''in_place_reward'' = Some in_place"
    by (simp add: info)
  have z: "target_to_obj = 0 \<longrightarrow> in_place = 1 \<and> map_of info ''success'' = Some 1"
    using w(4) s by simp
  from cr w(1) w(2) w(3) p s z show ?thesis by blast
qed

theorem window_open_in_place_and_success_witness:
  "evaluate_state_window long_tail_example window_example [] []
     = Inr (10, success_info_example 1)
   \<and> compute_reward_window long_tail_example window_example [] [] = Inr (10, 0, 0, 0, 1, 1)
   \<and> map_of (success_info_example 1) ''success'' = Some 1
   \<and> map_of (success_info_example 1) ''in_place_reward'' = Some 1"
proof -
  have n0: "linalg_norm [0, 0, 0] = 0" by (simp add: linalg_norm_def)
  have n3: "linalg_norm [0, 3 / 10, 0] = 3 / 10"
    by (simp add: linalg_norm_def real_sqrt_divide)
  have cr: "compute_reward_window long_tail_example window_example [] []
              = Inr (10, 0, 0, 0, 1, 1)"
    by (simp add: compute_reward_window_def window_example_def get_pos_objects_window_def
        item_def vsub_def broadcast_def tolerance_def hamacher_product_def Let_def
        linalg_norm_scalar_abs TARGET_RADIUS_window_def n0 n3)
  have "task_is_set window_example" by (simp add: window_example_def)
  then have ev: "evaluate_state_window long_tail_example window_example [] []
                   = Inr (10, success_info_example 1)"
    using cr unfolding evaluate_state_window_def assert_task_is_set_def
    by (simp add: float_of_bool_def TARGET_RADIUS_window_def success_info_example_def)
  from window_open_in_place_and_success [OF ev] show ?thesis
    by (elim exE conjE) (use ev cr in \<open>simp add: success_info_example_def\<close>)
qed

subsection \<open>The guard of the evaluation\<close>

text \<open>
  Claim C4. For each of the four task environments, \<open>evaluate_state\<close> called while the
  task is not yet set fails with the precondition violation and returns neither a reward
  nor an info dict.
\<close>

theorem evaluate_state_before_reset_fails:
  assumes "\<not> task_is_set button_env" and "\<not> task_is_set plate_env"
    and "\<not> task_is_set reach_env" and "\<not> task_is_set window_env"
  shows "evaluate_state_button sigmoids button_env obs action = Inl TaskNotSet
       \<and> evaluate_state_plate sigmoids plate_env obs action = Inl TaskNotSet
       \<and> evaluate_state_reach sigmoids reach_env obs action = Inl TaskNotSet
       \<and> evaluate_state_window sigmoids window_env obs action = Inl TaskNotSet"
  using assms
  by (simp add: evaluate_state_button_def evaluate_state_plate_def evaluate_state_reach_def
      evaluate_state_window_def assert_task_is_set_def)

theorem evaluate_state_before_reset_fails_witness:
  "\<not> task_is_set (button_far_example\<lparr>task_is_set := False\<rparr>)
   \<and> evaluate_state_button long_tail_example (button_far_example\<lparr>task_is_set := False\<rparr>)
       [] [] = Inl TaskNotSet
   \<and> evaluate_state_plate long_tail_example (plate_example\<lparr>task_is_set := False\<rparr>)
       [] [] = Inl TaskNotSet
   \<and> evaluate_state_reach long_tail_example (reach_example\<lparr>task_is_set := False\<rparr>)
       [] [] = Inl TaskNotSet
   \<and> evaluate_state_window long_tail_example (window_example\<lparr>task_is_set := False\<rparr>)
       [] [] = Inl TaskNotSet"
  using evaluate_state_before_reset_fails
    [where button_env = "button_far_example\<lparr>task_is_set := False\<rparr>"
       and plate_env = "plate_example\<lparr>task_is_set := False\<rparr>"
       and reach_env = "reach_example\<lparr>task_is_set := False\<rparr>"
       and window_env = "window_example\<lparr>task_is_set := False\<rparr>"
       and sigmoids = long_tail_example and obs = "[]" and action = "[]"]
  by simp

subsection \<open>Repeated evaluation\<close>

text \<open>A sequence of two statements that only read is a statement that only reads.\<close>

lemma bind_m_reads:
  "bind_m (\<lambda>self. (r self, self)) (\<lambda>v self. (g v self, self))
     = (\<lambda>self. (bind_err (r self) (\<lambda>v. g v self), self))"
  by (auto simp: bind_m_def bind_err_def fun_eq_iff split: sum.splits)

text \<open>
  Each method leaves the object as it found it, and its result is the one of the
  function of the same name above.
\<close>

lemma compute_reward_plate_st_eq:
  "compute_reward_plate_st sigmoids actions obs
     = (\<lambda>self. (compute_reward_plate sigmoids self actions obs, self))"
  unfolding compute_reward_plate_st_def compute_reward_plate_def Let_def
    getattr_m_def local_m_def return_m_def
  by (simp add: bind_m_reads)

lemma compute_reward_reach_st_eq:
  "compute_reward_reach_st sigmoids actions obs
     = (\<lambda>self. (compute_reward_reach sigmoids self actions obs, self))"
  unfolding compute_reward_reach_st_def compute_reward_reach_def Let_def
    getattr_m_def local_m_def return_m_def
  by (simp add: bind_m_reads)

lemma compute_reward_button_st_eq:
  "compute_reward_button_st sigmoids actions obs
     = (\<lambda>self. (compute_reward_button sigmoids self actions obs, self))"
  unfolding compute_reward_button_st_def compute_reward_button_def Let_def
    getattr_m_def local_m_def return_m_def
  by (simp add: bind_m_reads)

lemma compute_reward_window_st_eq:
  "compute_reward_window_st sigmoids actions obs
     = (\<lambda>self. (compute_reward_window sigmoids self actions obs, self))"
  unfolding compute_reward_window_st_def compute_reward_window_def Let_def
    get_pos_objects_window_st_def get_pos_objects_window_def
    getattr_m_def local_m_def return_m_def
  by (simp add: bind_m_reads)

lemma evaluate_state_plate_st_eq:
  "evaluate_state_plate_st sigmoids obs action self
     = (evaluate_state_plate sigmoids self obs action, self)"
  unfolding evaluate_state_plate_st_def evaluate_state_plate_def assert_task_is_set_st_def
    assert_task_is_set_def compute_reward_plate_st_eq
  by (simp add: bind_m_def getattr_m_def raise_m_def return_m_def bind_err_def Let_def
      split: sum.splits prod.splits)

lemma evaluate_state_reach_st_eq:
  "evaluate_state_reach_st sigmoids obs action self
     = (evaluate_state_reach sigmoids self obs action, self)"
  unfolding evaluate_state_reach_st_def evaluate_state_reach_def assert_task_is_set_st_def
    assert_task_is_set_def compute_reward_reach_st_eq
  by (simp add: bind_m_def getattr_m_def raise_m_def return_m_def bind_err_def Let_def
      split: sum.splits prod.splits)

lemma evaluate_state_button_st_eq:
  "evaluate_state_button_st sigmoids obs action self
     = (evaluate_state_button sigmoids self obs action, self)"
  unfolding evaluate_state_button_st_def evaluate_state_button_def assert_task_is_set_st_def
    assert_task_is_set_def compute_reward_button_st_eq
  by (simp add: bind_m_def getattr_m_def raise_m_def return_m_def bind_err_def Let_def
      split: sum.splits prod.splits)

lemma evaluate_state_window_st_eq:
  "evaluate_state_window_st sigmoids obs action self
     = (evaluate_state_window sigmoids self obs action, self)"
  unfolding evaluate_state_window_st_def evaluate_state_window_def assert_task_is_set_st_def
    assert_task_is_set_def compute_reward_window_st_eq
  by (simp add: bind_m_def getattr_m_def raise_m_def return_m_def bind_err_def Let_def
      split: sum.splits prod.splits)

text \<open>
  The result of \<open>evaluate_state\<close> depends on the object only through the fields the
  method reads.
\<close>

lemma evaluate_state_plate_frame:
  assumes "task_is_set b = task_is_set a" and "tcp_center b = tcp_center a"
    and "init_tcp b = init_tcp a" and "target_pos b = target_pos a"
    and "obj_init_pos b = obj_init_pos a"
  shows "evaluate_state_plate sigmoids b obs action = evaluate_state_plate sigmoids a obs action"
  by (simp only: evaluate_state_plate_def assert_task_is_set_def compute_reward_plate_def assms)

lemma evaluate_state_reach_frame:
  assumes "task_is_set b = task_is_set a" and "tcp_center b = tcp_center a"
    and "target_pos b = target_pos a" and "hand_init_pos b = hand_init_pos a"
  shows "evaluate_state_reach sigmoids b obs action = evaluate_state_reach sigmoids a obs action"
  by (simp only: evaluate_state_reach_def assert_task_is_set_def compute_reward_reach_def assms)

lemma evaluate_state_button_frame:
  assumes "task_is_set b = task_is_set a" and "tcp_center b = tcp_center a"
    and "init_tcp b = init_tcp a" and "target_pos b = target_pos a"
    and "obj_to_target_init b = obj_to_target_init a"
  shows "evaluate_state_button sigmoids b obs action = evaluate_state_button sigmoids a obs action"
  by (simp only: evaluate_state_button_def assert_task_is_set_def compute_reward_button_def assms)

lemma evaluate_state_window_frame:
  assumes "task_is_set b = task_is_set a"
    and "site_pos b ''handleOpenStart'' = site_pos a ''handleOpenStart''"
    and "tcp_center b = tcp_center a" and "init_tcp b = init_tcp a"
    and "target_pos b = target_pos a" and "obj_init_pos b = obj_init_pos a"
    and "window_handle_pos_init b = window_handle_pos_init a"
  shows "evaluate_state_window sigmoids b obs action = evaluate_state_window sigmoids a obs action"
  by (simp only: evaluate_state_window_def assert_task_is_set_def compute_reward_window_def
      get_pos_objects_window_def assms)

text \<open>The example states, evaluated.\<close>

lemma linalg_norm_examples:
  "linalg_norm [0, 0, 0] = 0"
  "linalg_norm [0, - (1 / 5), 0] = 1 / 5"
  "linalg_norm [- (1 / 5), 0, 0] = 1 / 5"
  "linalg_norm [0, 3 / 10, 0] = 3 / 10"
  by (simp_all add: linalg_norm_def real_sqrt_divide)

lemma evaluate_state_reach_example:
  "evaluate_state_reach long_tail_example reach_example reach_example_obs []
     = Inr (32 / 5,
         [(''success'', 0), (''near_object'', 1 / 5), (''grasp_success'', 1),
          (''grasp_reward'', 1 / 5), (''in_place_reward'', 16 / 25),
          (''obj_to_target'', 1 / 5), (''unscaled_reward'', 32 / 5)])"
  by (simp add: evaluate_state_reach_def assert_task_is_set_def compute_reward_reach_def
      reach_example_def long_tail_example_def vsub_def broadcast_def tolerance_def Let_def
      float_of_bool_def linalg_norm_examples)

lemma evaluate_state_reach_example_moved:
  "evaluate_state_reach long_tail_example (reach_example\<lparr>tcp_center := [0, 0.8, 0.2]\<rparr>)
     reach_example_obs []
     = Inr (10,
         [(''success'', 1), (''near_object'', 0), (''grasp_success'', 1),
          (''grasp_reward'', 0), (''in_place_reward'', 1),
          (''obj_to_target'', 0), (''unscaled_reward'', 10)])"
  by (simp add: evaluate_state_reach_def assert_task_is_set_def compute_reward_reach_def
      reach_example_def long_tail_example_def vsub_def broadcast_def tolerance_def Let_def
      float_of_bool_def linalg_norm_examples)

lemma evaluate_state_button_example:
  "evaluate_state_button long_tail_example button_near_example button_near_obs []
     = Inr (10, success_info_example 1)"
  by (simp add: evaluate_state_button_def assert_task_is_set_def compute_reward_button_def
      button_near_example_def button_near_obs_def long_tail_example_def slice_def item_def
      vsub_def broadcast_def tolerance_def Let_def float_of_bool_def success_info_example_def
      linalg_norm_examples)

lemma evaluate_state_window_example:
  "evaluate_state_window long_tail_example window_example window_example_obs []
     = Inr (10, success_info_example 1)"
  by (simp add: evaluate_state_window_def assert_task_is_set_def compute_reward_window_def
      window_example_def get_pos_objects_window_def item_def vsub_def broadcast_def
      tolerance_def hamacher_product_def Let_def linalg_norm_scalar_abs
      TARGET_RADIUS_window_def float_of_bool_def success_info_example_def
      linalg_norm_examples)

lemma evaluate_state_window_example_moved:
  "evaluate_state_window long_tail_example window_closed_example window_example_obs []
     = Inr (1960 / 473,
         [(''success'', 0), (''near_object'', 0), (''grasp_success'', 1),
          (''grasp_reward'', 196 / 277), (''in_place_reward'', 1 / 2),
          (''obj_to_target'', 1 / 5), (''unscaled_reward'', 1960 / 473)])"
  by (simp add: evaluate_state_window_def assert_task_is_set_def compute_reward_window_def
      window_closed_example_def window_example_def get_pos_objects_window_def
      long_tail_example_def item_def vsub_def
      broadcast_def tolerance_def hamacher_product_def Let_def linalg_norm_scalar_abs
      TARGET_RADIUS_window_def float_of_bool_def linalg_norm_examples)

text \<open>
  The result is not a function of the cached episode state and the observation alone.
  In the reach task, with the task set and the same target, initial object position and
  initial hand position, the same observation and action give the reward 6.4 when the
  simulator has the gripper at its initial position and the reward 10 when it has the
  gripper at the target. In the window-open task, with the same cached state, observation
  and action, the evaluation reports success with reward 10 when the simulator has the
  handle at the target, and no success when it has the handle back at its initial
  position.
\<close>

theorem evaluate_state_idempotent_counterexample:
  "task_is_set (reach_example\<lparr>tcp_center := [0, 0.8, 0.2]\<rparr>) = task_is_set reach_example
   \<and> target_pos (reach_example\<lparr>tcp_center := [0, 0.8, 0.2]\<rparr>) = target_pos reach_example
   \<and> obj_init_pos (reach_example\<lparr>tcp_center := [0, 0.8, 0.2]\<rparr>) = obj_init_pos reach_example
   \<and> hand_init_pos (reach_example\<lparr>tcp_center := [0, 0.8, 0.2]\<rparr>) = hand_init_pos reach_example
   \<and> init_tcp (reach_example\<lparr>tcp_center := [0, 0.8, 0.2]\<rparr>) = init_tcp reach_example
   \<and> evaluate_state_reach_st long_tail_example reach_example_obs [] reach_example
       = (Inr (32 / 5,
            [(''success'', 0), (''near_object'', 1 / 5), (''grasp_success'', 1),
             (''grasp_reward'', 1 / 5), (''in_place_reward'', 16 / 25),
             (''obj_to_target'', 1 / 5), (''unscaled_reward'', 32 / 5)]),
          reach_example)
   \<and> evaluate_state_reach_st long_tail_example reach_example_obs []
         (reach_example\<lparr>tcp_center := [0, 0.8, 0.2]\<rparr>)
       = (Inr (10,
            [(''success'', 1), (''near_object'', 0), (''grasp_success'', 1),
             (''grasp_reward'', 0), (''in_place_reward'', 1),
             (''obj_to_target'', 0), (''unscaled_reward'', 10)]),
          reach_example\<lparr>tcp_center := [0, 0.8, 0.2]\<rparr>)
   \<and> task_is_set window_closed_example = task_is_set window_example
   \<and> tcp_center window_closed_example = tcp_center window_example
   \<and> target_pos window_closed_example = target_pos window_example
   \<and> obj_init_pos window_closed_example = obj_init_pos window_example
   \<and> window_handle_pos_init window_closed_example = window_handle_pos_init window_example
   \<and> init_tcp window_closed_example = init_tcp window_example
   \<and> evaluate_state_window_st long_tail_example window_example_obs [] window_example
       = (Inr (10, success_info_example 1), window_example)
   \<and> evaluate_state_window_st long_tail_example window_example_obs [] window_closed_example
       = (Inr (1960 / 473,
            [(''success'', 0), (''near_object'', 0), (''grasp_success'', 1),
             (''grasp_reward'', 196 / 277), (''in_place_reward'', 1 / 2),
             (''obj_to_target'', 1 / 5), (''unscaled_reward'', 1960 / 473)]),
          window_closed_example)"
proof -
  have "task_is_set window_closed_example = task_is_set window_example"
    "tcp_center window_closed_example = tcp_center window_example"
    "target_pos window_closed_example = target_pos window_example"
    "obj_init_pos window_closed_example = obj_init_pos window_example"
    "window_handle_pos_init window_closed_example = window_handle_pos_init window_example"
    "init_tcp window_closed_example = init_tcp window_example"
    by (simp_all add: window_closed_example_def)
  then show ?thesis
    using evaluate_state_reach_example evaluate_state_reach_example_moved
      evaluate_state_window_example evaluate_state_window_example_moved
    by (simp add: evaluate_state_reach_st_eq evaluate_state_window_st_eq)
qed

text \<open>
  Claim C7. For every task, a call of \<open>evaluate_state\<close> leaves the object as it was, and
  a second call with the same observation and action on the object left by the first
  gives the same reward and the same info dict. The result is a function of the
  observation, the action and the fields the method reads: the flag of the guard, the
  cached episode state (target, initial positions, baseline distance) and the positions
  the simulator reports at the time of the call (the gripper centre \<open>tcp_center\<close> and,
  in the window-open task, the site of the handle). Two calls with the same observation
  and action give the same result whenever those fields are the same at both calls.
\<close>

theorem evaluate_state_repeatable:
  fixes button_env button_env' :: "'b button_press_wall_env_scheme"
    and plate_env plate_env' reach_env reach_env' :: "'e sawyer_xyz_env_scheme"
    and window_env window_env' :: "'w window_open_env_scheme"
  shows
  "(let (r1, env1) = evaluate_state_button_st sigmoids obs action button_env;
        (r2, env2) = evaluate_state_button_st sigmoids obs action env1
    in r1 = r2 \<and> env1 = button_env \<and> env2 = button_env)
   \<and> (let (r1, env1) = evaluate_state_plate_st sigmoids obs action plate_env;
          (r2, env2) = evaluate_state_plate_st sigmoids obs action env1
      in r1 = r2 \<and> env1 = plate_env \<and> env2 = plate_env)
   \<and> (let (r1, env1) = evaluate_state_reach_st sigmoids obs action reach_env;
          (r2, env2) = evaluate_state_reach_st sigmoids obs action env1
      in r1 = r2 \<and> env1 = reach_env \<and> env2 = reach_env)
   \<and> (let (r1, env1) = evaluate_state_window_st sigmoids obs action window_env;
          (r2, env2) = evaluate_state_window_st sigmoids obs action env1
      in r1 = r2 \<and> env1 = window_env \<and> env2 = window_env)
   \<and> (task_is_set button_env' = task_is_set button_env
        \<and> tcp_center button_env' = tcp_center button_env
        \<and> init_tcp button_env' = init_tcp button_env
        \<and> target_pos button_env' = target_pos button_env
        \<and> obj_to_target_init button_env' = obj_to_target_init button_env
      \<longrightarrow> fst (evaluate_state_button_st sigmoids obs action button_env')
          = fst (evaluate_state_button_st sigmoids obs action button_env))
   \<and> (task_is_set plate_env' = task_is_set plate_env
        \<and> tcp_center plate_env' = tcp_center plate_env
        \<and> init_tcp plate_env' = init_tcp plate_env
        \<and> target_pos plate_env' = target_pos plate_env
        \<and> obj_init_pos plate_env' = obj_init_pos plate_env
      \<longrightarrow> fst (evaluate_state_plate_st sigmoids obs action plate_env')
          = fst (evaluate_state_plate_st sigmoids obs action plate_env))
   \<and> (task_is_set reach_env' = task_is_set reach_env
        \<and> tcp_center reach_env' = tcp_center reach_env
        \<and> target_pos reach_env' = target_pos reach_env
        \<and> hand_init_pos reach_env' = hand_init_pos reach_env
      \<longrightarrow> fst (evaluate_state_reach_st sigmoids obs action reach_env')
          = fst (evaluate_state_reach_st sigmoids obs action reach_env))
   \<and> (task_is_set window_env' = task_is_set window_env
        \<and> site_pos window_env' ''handleOpenStart'' = site_pos window_env ''handleOpenStart''
        \<and> tcp_center window_env' = tcp_center window_env
        \<and> init_tcp window_env' = init_tcp window_env
        \<and> target_pos window_env' = target_pos window_env
        \<and> obj_init_pos window_env' = obj_init_pos window_env
        \<and> window_handle_pos_init window_env' = window_handle_pos_init window_env
      \<longrightarrow> fst (evaluate_state_window_st sigmoids obs action window_env')
          = fst (evaluate_state_window_st sigmoids obs action window_env))"
proof (intro conjI impI, goal_cases)
  case 1
  show ?case by (simp add: evaluate_state_button_st_eq)
next
  case 2
  show ?case by (simp add: evaluate_state_plate_st_eq)
next
  case 3
  show ?case by (simp add: evaluate_state_reach_st_eq)
next
  case 4
  show ?case by (simp add: evaluate_state_window_st_eq)
next
  case 5
  then show ?case
    unfolding evaluate_state_button_st_eq fst_conv
    by (intro evaluate_state_button_frame) simp_all
next
  case 6
  then show ?case
    unfolding evaluate_state_plate_st_eq fst_conv
    by (intro evaluate_state_plate_frame) simp_all
next
  case 7
  then show ?case
    unfolding evaluate_state_reach_st_eq fst_conv
    by (intro evaluate_state_reach_frame) simp_all
next
  case 8
  then show ?case
    unfolding evaluate_state_window_st_eq fst_conv
    by (intro evaluate_state_window_frame) simp_all
qed

theorem evaluate_state_repeatable_witness:
  "fst (evaluate_state_button_st long_tail_example button_near_obs []
          (button_near_example\<lparr>hand_init_pos := [0, 0.5, 0.3]\<rparr>))
     = Inr (10, success_info_example 1)
   \<and> fst (evaluate_state_plate_st long_tail_example plate_example_obs []
            (plate_example\<lparr>hand_init_pos := [0, 0.5, 0.3]\<rparr>))
       = Inr (10, success_info_example 0)
   \<and> fst (evaluate_state_reach_st long_tail_example reach_example_obs []
            (reach_example\<lparr>obj_init_pos := [0.1, 0.7, 0.02]\<rparr>))
       = Inr (32 / 5,
           [(''success'', 0), (''near_object'', 1 / 5), (''grasp_success'', 1),
            (''grasp_reward'', 1 / 5), (''in_place_reward'', 16 / 25),
            (''obj_to_target'', 1 / 5), (''unscaled_reward'', 32 / 5)])
   \<and> fst (evaluate_state_window_st long_tail_example window_example_obs []
            (window_example\<lparr>hand_init_pos := [0, 0.5, 0.3]\<rparr>))
       = Inr (10, success_info_example 1)
   \<and> snd (evaluate_state_window_st long_tail_example window_example_obs [] window_example)
       = window_example"
proof -
  have b: "fst (evaluate_state_button_st long_tail_example button_near_obs []
                  (button_near_example\<lparr>hand_init_pos := [0, 0.5, 0.3]\<rparr>))
             = fst (evaluate_state_button_st long_tail_example button_near_obs []
                      button_near_example)"
    using evaluate_state_repeatable
      [where sigmoids = long_tail_example and obs = button_near_obs and action = "[]"
         and button_env = button_near_example
         and button_env' = "button_near_example\<lparr>hand_init_pos := [0, 0.5, 0.3]\<rparr>",
       THEN conjunct2, THEN conjunct2, THEN conjunct2, THEN conjunct2, THEN conjunct1]
    by simp
  have p: "fst (evaluate_state_plate_st long_tail_example plate_example_obs []
                  (plate_example\<lparr>hand_init_pos := [0, 0.5, 0.3]\<rparr>))
             = fst (evaluate_state_plate_st long_tail_example plate_example_obs []
                      plate_example)"
    using evaluate_state_repeatable
      [where sigmoids = long_tail_example and obs = plate_example_obs and action = "[]"
         and plate_env = plate_example
         and plate_env' = "plate_example\<lparr>hand_init_pos := [0, 0.5, 0.3]\<rparr>",
       THEN conjunct2, THEN conjunct2, THEN conjunct2, THEN conjunct2, THEN conjunct2,
       THEN conjunct1]
    by simp
  have r: "fst (evaluate_state_reach_st long_tail_example reach_example_obs []
                  (reach_example\<lparr>obj_init_pos := [0.1, 0.7, 0.02]\<rparr>))
             = fst (evaluate_state_reach_st long_tail_example reach_example_obs []
                      reach_example)"
    using evaluate_state_repeatable
      [where sigmoids = long_tail_example and obs = reach_example_obs and action = "[]"
         and reach_env = reach_example
         and reach_env' = "reach_example\<lparr>obj_init_pos := [0.1, 0.7, 0.02]\<rparr>",
       THEN conjunct2, THEN conjunct2, THEN conjunct2, THEN conjunct2, THEN conjunct2,
       THEN conjunct2, THEN conjunct1]
    by simp
  have w: "fst (evaluate_state_window_st long_tail_example window_example_obs []
                  (window_example\<lparr>hand_init_pos := [0, 0.5, 0.3]\<rparr>))
             = fst (evaluate_state_window_st long_tail_example window_example_obs []
                      window_example)"
    using evaluate_state_repeatable
      [where sigmoids = long_tail_example and obs = window_example_obs and action = "[]"
         and window_env = window_example
         and window_env' = "window_example\<lparr>hand_init_pos := [0, 0.5, 0.3]\<rparr>",
       THEN conjunct2, THEN conjunct2, THEN conjunct2, THEN conjunct2, THEN conjunct2,
       THEN conjunct2, THEN conjunct2]
    by simp
  have s: "snd (evaluate_state_window_st long_tail_example window_example_obs []
                  window_example) = window_example"
    using evaluate_state_repeatable
      [where sigmoids = long_tail_example and obs = window_example_obs and action = "[]"
         and window_env = window_example,
       THEN conjunct2, THEN conjunct2, THEN conjunct2, THEN conjunct1]
    by (simp add: split_def Let_def)
  show ?thesis
    using b p r w s evaluate_state_button_example evaluate_state_plate_example
      evaluate_state_reach_example evaluate_state_window_example
    by (simp add: evaluate_state_button_st_eq evaluate_state_plate_st_eq
        evaluate_state_reach_st_eq evaluate_state_window_st_eq)
qed

subsection \<open>Hamacher product\<close>

text \<open>
  Claim C8. The Hamacher product is symmetric in its two arguments, is 0 whenever
  either input is 0, and on scores in \<open>[0, 1]\<close> it is 1 only when both inputs are 1
  (and it is 1 there).
\<close>

theorem hamacher_product_properties:
  "hamacher_product a b = hamacher_product b a
   \<and> (a = 0 \<or> b = 0 \<longrightarrow> hamacher_product a b = 0)
   \<and> (0 \<le> a \<and> a \<le> 1 \<and> 0 \<le> b \<and> b \<le> 1 \<and> hamacher_product a b = 1 \<longrightarrow> a = 1 \<and> b = 1)
   \<and> hamacher_product 1 1 = 1"
proof (intro conjI impI)
  show "hamacher_product a b = hamacher_product b a"
    by (simp add: hamacher_product_def mult.commute add.commute)
  show "hamacher_product a b = 0" if "a = 0 \<or> b = 0"
    using that by (auto simp: hamacher_product_def)
  show "hamacher_product 1 1 = 1"
    by (simp add: hamacher_product_def)
next
  assume h: "0 \<le> a \<and> a \<le> 1 \<and> 0 \<le> b \<and> b \<le> 1 \<and> hamacher_product a b = 1"
  have ne: "\<not> (a = 0 \<and> b = 0)"
  proof
    assume "a = 0 \<and> b = 0"
    then have "hamacher_product a b = 0" by (simp add: hamacher_product_def)
    with h show False by simp
  qed
  have "hamacher_product a b = (a * b) / (a + b - a * b)"
    unfolding hamacher_product_def using ne by (rule if_not_P)
  with h have q: "(a * b) / (a + b - a * b) = 1" by (elim conjE) (rule trans [OF sym])
  then have "a + b - a * b \<noteq> 0" by auto
  with q have eq: "a * b = a + b - a * b" by simp
  have "a * (1 - b) + b * (1 - a) = 0" using eq by (simp add: algebra_simps)
  moreover have "0 \<le> a * (1 - b)" "0 \<le> b * (1 - a)" using h by simp_all
  ultimately have z: "a * (1 - b) = 0" "b * (1 - a) = 0" by linarith+
  show "a = 1" using z ne by auto
  show "b = 1" using z ne by auto
qed

theorem hamacher_product_properties_witness:
  "hamacher_product (1 / 2) 1 = hamacher_product 1 (1 / 2)
   \<and> hamacher_product 0 (1 / 2) = 0
   \<and> hamacher_product (1 / 2) 1 \<noteq> 1
   \<and> hamacher_product 1 1 = 1"
proof -
  have "hamacher_product (1 / 2) 1 \<noteq> 1"
    using hamacher_product_properties [of "1 / 2" 1] by auto
  moreover have "hamacher_product 0 (1 / 2) = 0"
    using hamacher_product_properties [of 0 "1 / 2"] by simp
  moreover have "hamacher_product (1 / 2) 1 = hamacher_product 1 (1 / 2)"
    using hamacher_product_properties [of "1 / 2" 1] by simp
  ultimately show ?thesis using hamacher_product_properties [of 1 1] by simp
qed

end
